theory Spec2Isabelle
  imports Main "HOL-Library.Word"
begin

unbundle bit_operations_syntax

section \<open>Machine state of the simulated AVR (struct MSIM_AVR)\<close>

text \<open>
  C integer types are modelled by their width on an LP64 platform:
  \<open>unsigned char\<close> is \<open>8 word\<close>, \<open>unsigned short\<close> is \<open>16 word\<close>, \<open>int\<close> and
  \<open>unsigned int\<close> are \<open>32 word\<close>, \<open>unsigned long\<close> is \<open>64 word\<close>.  Integer promotion
  is written out with \<open>ucast\<close> (zero extension) and \<open>scast\<close> (sign extension).
\<close>

type_synonym u8 = "8 word"
type_synonym u16 = "16 word"
type_synonym u32 = "32 word"
type_synonym u64 = "64 word"

datatype MSIM_AVR_State =
  AVR_RUNNING | AVR_STOPPED | AVR_SLEEPING | AVR_MSIM_STEP | AVR_MSIM_STOP | AVR_MSIM_TESTFAIL

datatype MSIM_AVR_SREGFlag =
  AVR_SREG_CARRY | AVR_SREG_ZERO | AVR_SREG_NEGATIVE | AVR_SREG_TWOSCOM_OF |
  AVR_SREG_SIGN | AVR_SREG_HALF_CARRY | AVR_SREG_T_BIT | AVR_SREG_GLOB_INT

text \<open>
  The fields of \<open>struct MSIM_AVR\<close> the decoder and the timer read or write.  The byte
  arrays \<open>pm\<close>, \<open>pmp\<close>, \<open>mpm\<close> and \<open>dm\<close> are total maps from an index to a byte (C gives
  no meaning to an access beyond the allocation; the model gives every index a cell).
  The register pointers \<open>sreg\<close>, \<open>sph\<close>, \<open>spl\<close>, \<open>eind\<close>, \<open>rampz\<close> and \<open>spmcsr\<close> point
  into the data memory: they are kept as the index of the cell in \<open>dm\<close>, and a
  pointer which may be \<open>NULL\<close> is an \<open>option\<close>.  \<open>exec_main\<close> is \<open>mcu->intr->exec_main\<close>.
\<close>

record MSIM_AVR =
  xmega :: u8
  reduced_core :: u8
  ramstart :: u64
  ramend :: u64
  spm_pagesize :: u32
  spmcsr :: "nat option"
  state :: MSIM_AVR_State
  pc_bits :: u8
  pc :: u64
  exec_main :: u8
  ic_left :: u8
  in_mcinst :: u8
  sreg :: nat
  sph :: nat
  spl :: nat
  eind :: "nat option"
  rampz :: "nat option"
  pm :: "nat \<Rightarrow> u8"
  pmp :: "nat \<Rightarrow> u8"
  dm :: "nat \<Rightarrow> u8"
  mpm :: "nat \<Rightarrow> u8"
  read_from_mpm :: u8
  sfr_off :: u32

definition dm_set :: "MSIM_AVR \<Rightarrow> nat \<Rightarrow> u8 \<Rightarrow> MSIM_AVR" where
  "dm_set mcu a v = mcu\<lparr>dm := (dm mcu)(a := v)\<rparr>"

subsection \<open>Flag engine and stack primitive\<close>

fun sreg_pos :: "MSIM_AVR_SREGFlag \<Rightarrow> nat" where
  "sreg_pos AVR_SREG_CARRY = 0"
| "sreg_pos AVR_SREG_ZERO = 1"
| "sreg_pos AVR_SREG_NEGATIVE = 2"
| "sreg_pos AVR_SREG_TWOSCOM_OF = 3"
| "sreg_pos AVR_SREG_SIGN = 4"
| "sreg_pos AVR_SREG_HALF_CARRY = 5"
| "sreg_pos AVR_SREG_T_BIT = 6"
| "sreg_pos AVR_SREG_GLOB_INT = 7"

text \<open>
  Modelled from the spec: \<open>MSIM_AVR_UpdateSREGFlag\<close> is not among the sources.  The
  flag engine is a typed accessor to the eight bits C, Z, N, V, S, H, T, I of the SREG
  byte (bit 0 to bit 7): a nonzero third argument sets the bit, zero clears it.
\<close>

definition MSIM_AVR_UpdateSREGFlag :: "MSIM_AVR \<Rightarrow> MSIM_AVR_SREGFlag \<Rightarrow> u8 \<Rightarrow> MSIM_AVR" where
  "MSIM_AVR_UpdateSREGFlag mcu flag set_f =
     (if set_f \<noteq> 0
      then dm_set mcu (sreg mcu) (dm mcu (sreg mcu) OR push_bit (sreg_pos flag) 1)
      else dm_set mcu (sreg mcu) (dm mcu (sreg mcu) AND NOT (push_bit (sreg_pos flag) 1)))"

text \<open>
  Modelled from the spec: \<open>MSIM_AVR_ReadSREGFlag\<close> is not among the sources.  It
  returns the selected SREG bit as 0 or 1.
\<close>

definition MSIM_AVR_ReadSREGFlag :: "MSIM_AVR \<Rightarrow> MSIM_AVR_SREGFlag \<Rightarrow> u8" where
  "MSIM_AVR_ReadSREGFlag mcu flag = drop_bit (sreg_pos flag) (dm mcu (sreg mcu)) AND 1"

definition stack_pointer :: "MSIM_AVR \<Rightarrow> u16" where
  "stack_pointer mcu = ucast (dm mcu (spl mcu)) OR push_bit 8 (ucast (dm mcu (sph mcu)))"

definition set_stack_pointer :: "MSIM_AVR \<Rightarrow> u16 \<Rightarrow> MSIM_AVR" where
  "set_stack_pointer mcu sp =
     dm_set (dm_set mcu (spl mcu) (ucast (sp AND 0xFF))) (sph mcu) (ucast (drop_bit 8 sp))"

text \<open>
  Modelled from the spec: \<open>MSIM_AVR_StackPush\<close> is not among the sources.  Section 4.4:
  push(b) writes b to dm[SP] and decrements SP, the 16-bit pair SPH:SPL.
\<close>

definition MSIM_AVR_StackPush :: "MSIM_AVR \<Rightarrow> u8 \<Rightarrow> MSIM_AVR" where
  "MSIM_AVR_StackPush mcu val =
     (let sp = stack_pointer mcu;
          mcu = dm_set mcu (unat sp) val
      in set_stack_pointer mcu (sp - 1))"

text \<open>
  Modelled from the spec: \<open>MSIM_AVR_StackPop\<close> is not among the sources.  Section 4.4:
  pop() increments SP and returns dm[SP].
\<close>

definition MSIM_AVR_StackPop :: "MSIM_AVR \<Rightarrow> u8 \<times> MSIM_AVR" where
  "MSIM_AVR_StackPop mcu =
     (let sp = stack_pointer mcu + 1;
          v = dm mcu (unat sp)
      in (v, set_stack_pointer mcu sp))"

subsection \<open>The SKIP_CYCLES macro\<close>

text \<open>
  The macro returns from the enclosing executor on the first and on the intermediate
  cycles; the rest of the executor is the continuation \<open>k\<close>.
\<close>

definition SKIP_CYCLES :: "MSIM_AVR \<Rightarrow> bool \<Rightarrow> u8 \<Rightarrow> (MSIM_AVR \<Rightarrow> MSIM_AVR) \<Rightarrow> MSIM_AVR" where
  "SKIP_CYCLES mcu cond cycl k =
     (if in_mcinst mcu = 0 \<and> cond
      then mcu\<lparr>in_mcinst := 1, ic_left := cycl\<rparr>
      else if in_mcinst mcu \<noteq> 0 \<and> ic_left mcu \<noteq> 0
      then (if ic_left mcu - 1 \<noteq> 0
            then mcu\<lparr>ic_left := ic_left mcu - 1\<rparr>
            else k (mcu\<lparr>ic_left := ic_left mcu - 1, in_mcinst := 0\<rparr>))
      else k (mcu\<lparr>in_mcinst := 0\<rparr>))"

definition MSIM_AVR_Is32 :: "u32 \<Rightarrow> bool" where
  "MSIM_AVR_Is32 inst =
     (let i = inst AND 0xfc0f
      in i = 0x9200 \<or> i = 0x9000 \<or> i = 0x940c \<or> i = 0x940d \<or> i = 0x940e \<or> i = 0x940f)"

section \<open>Opcode executors\<close>

text \<open>
  Every executor takes the instance and the instruction word (\<open>unsigned int\<close>) and
  returns the updated instance.  Writes to \<open>stderr\<close> are not part of the state.
\<close>

abbreviation (input) int_of :: "u8 \<Rightarrow> u32" where
  "int_of x \<equiv> ucast x"

abbreviation (input) uchar :: "u32 \<Rightarrow> u8" where
  "uchar x \<equiv> ucast x"

abbreviation (input) lnot :: "u8 \<Rightarrow> u8" where
  "lnot x \<equiv> (if x = 0 then 1 else 0)"

text \<open>
  The flag updates of the add and subtract families work on the operands promoted to
  \<open>int\<close>: the auxiliary \<open>buf\<close> carries C in bit 7 and H in bit 3, and V is bit 7 of
  a second expression.
\<close>

definition sub_buf :: "u32 \<Rightarrow> u32 \<Rightarrow> u32 \<Rightarrow> u32" where
  "sub_buf rd rr r = (NOT rd AND rr) OR (rr AND r) OR (r AND NOT rd)"

definition sub_ovf :: "u32 \<Rightarrow> u32 \<Rightarrow> u32 \<Rightarrow> u32" where
  "sub_ovf rd rr r = signed_drop_bit 7 ((rd AND NOT rr AND NOT r) OR (NOT rd AND rr AND r)) AND 1"

definition add_buf :: "u32 \<Rightarrow> u32 \<Rightarrow> u32 \<Rightarrow> u32" where
  "add_buf rd rr r = (rd AND rr) OR (rr AND NOT r) OR (NOT r AND rd)"

definition add_ovf :: "u32 \<Rightarrow> u32 \<Rightarrow> u32 \<Rightarrow> u32" where
  "add_ovf rd rr r = signed_drop_bit 7 ((rd AND rr AND NOT r) OR (NOT rd AND NOT rr AND r)) AND 1"

definition update_sign :: "MSIM_AVR \<Rightarrow> MSIM_AVR" where
  "update_sign mcu =
     MSIM_AVR_UpdateSREGFlag mcu AVR_SREG_SIGN
       (MSIM_AVR_ReadSREGFlag mcu AVR_SREG_NEGATIVE XOR
        MSIM_AVR_ReadSREGFlag mcu AVR_SREG_TWOSCOM_OF)"

definition exec_eor_clr :: "MSIM_AVR \<Rightarrow> u32 \<Rightarrow> MSIM_AVR" where
  "exec_eor_clr mcu0 inst =
    (let rd = uchar (drop_bit 4 (inst AND 0x01F0));
         rr = uchar ((inst AND 0x0F) OR drop_bit 5 (inst AND 0x0200));
         mcu = dm_set mcu0 (unat rd) (dm mcu0 (unat rd) XOR dm mcu0 (unat rr));
         mcu = mcu\<lparr>pc := pc mcu + 2\<rparr>;
         mcu = MSIM_AVR_UpdateSREGFlag mcu AVR_SREG_ZERO (lnot (dm mcu (unat rd)));
         mcu = MSIM_AVR_UpdateSREGFlag mcu AVR_SREG_NEGATIVE (dm mcu (unat rd) AND 0x80);
         mcu = MSIM_AVR_UpdateSREGFlag mcu AVR_SREG_TWOSCOM_OF 0
     in MSIM_AVR_UpdateSREGFlag mcu AVR_SREG_SIGN ((dm mcu (unat rd) AND 0x80) XOR 0))"

definition exec_in_out :: "MSIM_AVR \<Rightarrow> u32 \<Rightarrow> u8 \<Rightarrow> u8 \<Rightarrow> MSIM_AVR" where
  "exec_in_out mcu0 inst reg io_loc =
    (let mcu =
          (if inst AND 0xF800 = 0xB000
           then dm_set mcu0 (unat reg) (dm mcu0 (unat (int_of io_loc + sfr_off mcu0)))
           else if inst AND 0xF800 = 0xB800
           then dm_set mcu0 (unat (int_of io_loc + sfr_off mcu0)) (dm mcu0 (unat reg))
           else mcu0)
     in mcu\<lparr>pc := pc mcu + 2\<rparr>)"

definition exec_cpi :: "MSIM_AVR \<Rightarrow> u32 \<Rightarrow> MSIM_AVR" where
  "exec_cpi mcu0 inst =
    (let rd_addr = uchar (drop_bit 4 (inst AND 0xF0) + 16);
         c = uchar ((inst AND 0x0F) OR drop_bit 4 (inst AND 0x0F00));
         rd = dm mcu0 (unat rd_addr);
         r = int_of (dm mcu0 (unat rd_addr)) - int_of c;
         buf = sub_buf (int_of rd) (int_of c) r;
         mcu = mcu0\<lparr>pc := pc mcu0 + 2\<rparr>;
         mcu = MSIM_AVR_UpdateSREGFlag mcu AVR_SREG_CARRY (uchar (signed_drop_bit 7 buf AND 0x01));
         mcu = MSIM_AVR_UpdateSREGFlag mcu AVR_SREG_NEGATIVE (uchar (signed_drop_bit 7 r AND 1));
         mcu = MSIM_AVR_UpdateSREGFlag mcu AVR_SREG_TWOSCOM_OF
                 (uchar (sub_ovf (int_of rd) (int_of c) r));
         mcu = update_sign mcu;
         mcu = MSIM_AVR_UpdateSREGFlag mcu AVR_SREG_HALF_CARRY (uchar (signed_drop_bit 3 buf AND 1))
     in MSIM_AVR_UpdateSREGFlag mcu AVR_SREG_ZERO (if r = 0 then 1 else 0))"

text \<open>In \<open>exec_cpc\<close> the result \<open>r\<close> is an \<open>int\<close>: it is not cut to eight bits.\<close>

definition exec_cpc :: "MSIM_AVR \<Rightarrow> u32 \<Rightarrow> MSIM_AVR" where
  "exec_cpc mcu0 inst =
    (let rd_addr = uchar (drop_bit 4 (inst AND 0x01F0));
         rr_addr = uchar ((inst AND 0x0F) OR drop_bit 5 (inst AND 0x0200));
         rd = dm mcu0 (unat rd_addr);
         rr = dm mcu0 (unat rr_addr);
         r = int_of (dm mcu0 (unat rd_addr)) - int_of (dm mcu0 (unat rr_addr)) -
             int_of (MSIM_AVR_ReadSREGFlag mcu0 AVR_SREG_CARRY);
         mcu = mcu0\<lparr>pc := pc mcu0 + 2\<rparr>;
         buf = sub_buf (int_of rd) (int_of rr) r;
         mcu = MSIM_AVR_UpdateSREGFlag mcu AVR_SREG_CARRY (uchar (signed_drop_bit 7 buf AND 1));
         mcu = MSIM_AVR_UpdateSREGFlag mcu AVR_SREG_HALF_CARRY (uchar (signed_drop_bit 3 buf AND 1));
         mcu = MSIM_AVR_UpdateSREGFlag mcu AVR_SREG_NEGATIVE (uchar (signed_drop_bit 7 r AND 1));
         mcu = MSIM_AVR_UpdateSREGFlag mcu AVR_SREG_TWOSCOM_OF
                 (uchar (sub_ovf (int_of rd) (int_of rr) r));
         mcu = update_sign mcu
     in if r \<noteq> 0 then MSIM_AVR_UpdateSREGFlag mcu AVR_SREG_ZERO 0 else mcu)"

definition exec_cp :: "MSIM_AVR \<Rightarrow> u32 \<Rightarrow> MSIM_AVR" where
  "exec_cp mcu0 inst =
    (let rd_addr = uchar (drop_bit 4 (inst AND 0x01F0));
         rr_addr = uchar ((inst AND 0x0F) OR drop_bit 5 (inst AND 0x0200));
         rd = dm mcu0 (unat rd_addr);
         rr = dm mcu0 (unat rr_addr);
         r = int_of (dm mcu0 (unat rd_addr)) - int_of (dm mcu0 (unat rr_addr));
         mcu = mcu0\<lparr>pc := pc mcu0 + 2\<rparr>;
         buf = sub_buf (int_of rd) (int_of rr) r;
         mcu = MSIM_AVR_UpdateSREGFlag mcu AVR_SREG_CARRY (uchar (signed_drop_bit 7 buf AND 1));
         mcu = MSIM_AVR_UpdateSREGFlag mcu AVR_SREG_HALF_CARRY (uchar (signed_drop_bit 3 buf AND 1));
         mcu = MSIM_AVR_UpdateSREGFlag mcu AVR_SREG_NEGATIVE (uchar (signed_drop_bit 7 r AND 1));
         mcu = MSIM_AVR_UpdateSREGFlag mcu AVR_SREG_TWOSCOM_OF
                 (uchar (sub_ovf (int_of rd) (int_of rr) r));
         mcu = update_sign mcu
     in MSIM_AVR_UpdateSREGFlag mcu AVR_SREG_ZERO (if r = 0 then 1 else 0))"

definition exec_ldi :: "MSIM_AVR \<Rightarrow> u32 \<Rightarrow> MSIM_AVR" where
  "exec_ldi mcu0 inst =
    (let rd_off = uchar (drop_bit 4 (inst AND 0xF0));
         c = uchar ((inst AND 0x0F) OR drop_bit 4 (inst AND 0x0F00));
         mcu = dm_set mcu0 (unat (0x10 + int_of rd_off)) c
     in mcu\<lparr>pc := pc mcu + 2\<rparr>)"

text \<open>
  A relative jump: \<open>(unsigned long)(((long) mcu->pc) + (c + 1) * 2)\<close> with \<open>c\<close> an
  \<open>int\<close>; the \<open>int\<close> product is sign-extended to \<open>long\<close> and the sum wraps.
\<close>

definition pc_rel :: "u64 \<Rightarrow> u32 \<Rightarrow> u64" where
  "pc_rel p c = p + scast ((c + 1) * 2)"

text \<open>The seven-bit displacement of a conditional branch, as most executors compute it.\<close>

definition br_disp :: "u32 \<Rightarrow> u32" where
  "br_disp inst = (let c = drop_bit 3 inst AND 0x7F in if 63 < sint c then c - 128 else c)"

definition exec_rjmp :: "MSIM_AVR \<Rightarrow> u32 \<Rightarrow> MSIM_AVR" where
  "exec_rjmp mcu0 inst = SKIP_CYCLES mcu0 True 1 (\<lambda>mcu.
     let c = inst AND 0x0FFF;
         c = (if 2048 \<le> sint c then c - 4096 else c)
     in mcu\<lparr>pc := pc_rel (pc mcu) c\<rparr>)"

definition exec_brne :: "MSIM_AVR \<Rightarrow> u32 \<Rightarrow> MSIM_AVR" where
  "exec_brne mcu0 inst =
    (let cond = MSIM_AVR_ReadSREGFlag mcu0 AVR_SREG_ZERO
     in SKIP_CYCLES mcu0 (cond = 0) 1 (\<lambda>mcu.
          if cond = 0
          then (let c = signed_drop_bit 9 (push_bit 6 inst)
                in mcu\<lparr>pc := pc_rel (pc mcu) c\<rparr>)
          else mcu\<lparr>pc := pc mcu + 2\<rparr>))"

text \<open>
  \<open>exec_st\<close> and \<open>exec_ld\<close> get the index register as two pointers into \<open>dm\<close>; here
  they are the indices \<open>addr_low\<close> and \<open>addr_high\<close> of the two cells.
\<close>

definition exec_st :: "MSIM_AVR \<Rightarrow> u32 \<Rightarrow> nat \<Rightarrow> nat \<Rightarrow> u8 \<Rightarrow> MSIM_AVR" where
  "exec_st mcu0 inst addr_low addr_high regr =
    (let addr = (int_of (dm mcu0 addr_low) OR push_bit 8 (int_of (dm mcu0 addr_high)) :: u32);
         r = uchar (drop_bit 4 (inst AND 0x01F0));
         fin = (\<lambda>mcu. mcu\<lparr>pc := pc mcu + 2\<rparr>)
     in if inst AND 0x03 = 0x00 then
          (let k = (\<lambda>mcu. fin (dm_set mcu (unat addr) (dm mcu (unat r))))
           in if xmega mcu0 = 0 \<and> reduced_core mcu0 = 0 then SKIP_CYCLES mcu0 True 1 k else k mcu0)
        else if inst AND 0x03 = 0x01 then
          (let k = (\<lambda>mcu.
                 let mcu = dm_set mcu (unat addr) (dm mcu (unat r));
                     addr = addr + 1;
                     mcu = dm_set mcu addr_low (uchar (addr AND 0xFF));
                     mcu = dm_set mcu addr_high (uchar (drop_bit 8 addr))
                 in fin mcu)
           in if xmega mcu0 = 0 \<and> reduced_core mcu0 = 0 then SKIP_CYCLES mcu0 True 1 k else k mcu0)
        else if inst AND 0x03 = 0x02 then
          SKIP_CYCLES mcu0 True 1 (\<lambda>mcu.
            let addr = addr - 1;
                mcu = dm_set mcu addr_low (uchar (addr AND 0xFF));
                mcu = dm_set mcu addr_high (uchar (drop_bit 8 addr));
                mcu = dm_set mcu (unat addr) (dm mcu (unat r))
            in fin mcu)
        else fin mcu0)"

definition exec_st_x :: "MSIM_AVR \<Rightarrow> u32 \<Rightarrow> MSIM_AVR" where
  "exec_st_x mcu inst = exec_st mcu inst 26 27 (uchar (drop_bit 4 (inst AND 0x01F0)))"

definition exec_st_y :: "MSIM_AVR \<Rightarrow> u32 \<Rightarrow> MSIM_AVR" where
  "exec_st_y mcu inst = exec_st mcu inst 28 29 (uchar (drop_bit 4 (inst AND 0x01F0)))"

definition exec_st_z :: "MSIM_AVR \<Rightarrow> u32 \<Rightarrow> MSIM_AVR" where
  "exec_st_z mcu inst = exec_st mcu inst 30 31 (uchar (drop_bit 4 (inst AND 0x01F0)))"

definition ldd_disp :: "u32 \<Rightarrow> u8" where
  "ldd_disp inst =
     uchar ((inst AND 0x07) OR drop_bit 7 (inst AND 0x0C00) OR drop_bit 8 (inst AND 0x2000))"

definition exec_st_ydisp :: "MSIM_AVR \<Rightarrow> u32 \<Rightarrow> MSIM_AVR" where
  "exec_st_ydisp mcu0 inst = SKIP_CYCLES mcu0 True 1 (\<lambda>mcu.
     let addr = (int_of (dm mcu 28) OR push_bit 8 (int_of (dm mcu 29)) :: u32);
         regr = uchar (drop_bit 4 (inst AND 0x01F0));
         disp = ldd_disp inst;
         mcu = dm_set mcu (unat (addr + int_of disp)) (dm mcu (unat regr))
     in mcu\<lparr>pc := pc mcu + 2\<rparr>)"

definition exec_st_zdisp :: "MSIM_AVR \<Rightarrow> u32 \<Rightarrow> MSIM_AVR" where
  "exec_st_zdisp mcu0 inst = SKIP_CYCLES mcu0 True 1 (\<lambda>mcu.
     let addr = (int_of (dm mcu 30) OR push_bit 8 (int_of (dm mcu 31)) :: u32);
         regr = uchar (drop_bit 4 (inst AND 0x01F0));
         disp = ldd_disp inst;
         mcu = dm_set mcu (unat (addr + int_of disp)) (dm mcu (unat regr))
     in mcu\<lparr>pc := pc mcu + 2\<rparr>)"

text \<open>The return address is pushed low byte first; a third byte follows on a wide PC.\<close>

definition push_pc :: "MSIM_AVR \<Rightarrow> u64 \<Rightarrow> MSIM_AVR" where
  "push_pc mcu0 p =
    (let mcu = MSIM_AVR_StackPush mcu0 (ucast (p AND 0xFF));
         mcu = MSIM_AVR_StackPush mcu (ucast (drop_bit 8 p AND 0xFF))
     in if 16 < pc_bits mcu then MSIM_AVR_StackPush mcu (ucast (drop_bit 16 p AND 0xFF)) else mcu)"

definition exec_rcall :: "MSIM_AVR \<Rightarrow> u32 \<Rightarrow> MSIM_AVR" where
  "exec_rcall mcu0 inst =
    (let k = (\<lambda>mcu.
           let p = pc mcu + 2;
               c = inst AND 0x0FFF;
               c = (if 2048 \<le> sint c then c - 4096 else c);
               mcu = push_pc mcu p
           in mcu\<lparr>pc := pc_rel (pc mcu) c\<rparr>)
     in if reduced_core mcu0 = 0 \<and> xmega mcu0 \<noteq> 0
        then SKIP_CYCLES mcu0 True (if 16 < pc_bits mcu0 then 2 else 1) k
        else if reduced_core mcu0 = 0 \<and> xmega mcu0 = 0
        then SKIP_CYCLES mcu0 True (if 16 < pc_bits mcu0 then 3 else 2) k
        else SKIP_CYCLES mcu0 True 3 k)"

definition exec_sts :: "MSIM_AVR \<Rightarrow> u32 \<Rightarrow> MSIM_AVR" where
  "exec_sts mcu0 inst = SKIP_CYCLES mcu0 True 1 (\<lambda>mcu.
     let addr_lsb = pm mcu (unat (pc mcu + 2));
         addr_msb = pm mcu (unat (pc mcu + 3));
         addr = (int_of addr_lsb OR push_bit 8 (int_of addr_msb) :: u32);
         rr = uchar (drop_bit 4 (inst AND 0x01F0));
         mcu = dm_set mcu (unat addr) (dm mcu (unat rr))
     in mcu\<lparr>pc := pc mcu + 4\<rparr>)"

definition exec_ret :: "MSIM_AVR \<Rightarrow> MSIM_AVR" where
  "exec_ret mcu0 = SKIP_CYCLES mcu0 True (if 16 < pc_bits mcu0 then 4 else 3) (\<lambda>mcu.
     let (ae, mcu) = (if 16 < pc_bits mcu then MSIM_AVR_StackPop mcu else (0, mcu));
         (ah, mcu) = MSIM_AVR_StackPop mcu;
         (al, mcu) = MSIM_AVR_StackPop mcu
     in mcu\<lparr>pc := ucast (push_bit 16 (int_of ae) OR push_bit 8 (int_of ah) OR int_of al)\<rparr>)"

definition exec_ori_sbr :: "MSIM_AVR \<Rightarrow> u32 \<Rightarrow> MSIM_AVR" where
  "exec_ori_sbr mcu0 inst =
    (let rd_addr = uchar (drop_bit 4 (inst AND 0xF0) + 16);
         c = uchar ((inst AND 0x0F) OR drop_bit 4 (inst AND 0x0F00));
         r = dm mcu0 (unat rd_addr) OR c;
         mcu = dm_set mcu0 (unat rd_addr) r;
         mcu = mcu\<lparr>pc := pc mcu + 2\<rparr>;
         mcu = MSIM_AVR_UpdateSREGFlag mcu AVR_SREG_NEGATIVE (drop_bit 7 r AND 1);
         mcu = MSIM_AVR_UpdateSREGFlag mcu AVR_SREG_TWOSCOM_OF 0;
         mcu = update_sign mcu
     in MSIM_AVR_UpdateSREGFlag mcu AVR_SREG_ZERO (if r = 0 then 1 else 0))"

definition exec_sbi_cbi :: "MSIM_AVR \<Rightarrow> u32 \<Rightarrow> u8 \<Rightarrow> MSIM_AVR" where
  "exec_sbi_cbi mcu0 inst set_bit_f =
    (let k = (\<lambda>mcu.
           let reg = uchar (drop_bit 3 (inst AND 0x00F8));
               b = uchar (inst AND 0x07);
               a = unat (int_of reg + 0x20);
               mcu = (if set_bit_f \<noteq> 0
                      then dm_set mcu a (dm mcu a OR uchar (push_bit (unat b) 1))
                      else dm_set mcu a (dm mcu a AND uchar (NOT (push_bit (unat b) 1))))
           in mcu\<lparr>pc := pc mcu + 2\<rparr>)
     in if reduced_core mcu0 = 0 \<and> xmega mcu0 = 0 then SKIP_CYCLES mcu0 True 1 k else k mcu0)"

text \<open>
  \<open>exec_sbis_sbic\<close> builds the next instruction word from both of its bytes before it
  asks \<open>MSIM_AVR_Is32\<close>.
\<close>

definition exec_sbis_sbic :: "MSIM_AVR \<Rightarrow> u32 \<Rightarrow> u8 \<Rightarrow> MSIM_AVR" where
  "exec_sbis_sbic mcu0 inst set_bit_f =
    (let reg = uchar (drop_bit 3 (inst AND 0x00F8) + 0x20);
         b = uchar (inst AND 0x07);
         lsb = pm mcu0 (unat (pc mcu0 + 2));
         msb = pm mcu0 (unat (pc mcu0 + 3));
         ni = (int_of lsb OR push_bit 8 (int_of msb) :: u32);
         is32 = MSIM_AVR_Is32 ni;
         skip = (\<lambda>mcu. mcu\<lparr>pc := pc mcu + (if is32 then 6 else 4)\<rparr>)
     in if set_bit_f \<noteq> 0 \<and> int_of (dm mcu0 (unat reg)) AND push_bit (unat b) 1 \<noteq> 0 then
          (if xmega mcu0 \<noteq> 0
           then SKIP_CYCLES mcu0 True (if is32 then 3 else 2) skip
           else SKIP_CYCLES mcu0 True (if is32 then 2 else 1) skip)
        else if set_bit_f = 0 \<and> int_of (dm mcu0 (unat reg)) XOR push_bit (unat b) 1 \<noteq> 0 then
          (if xmega mcu0 \<noteq> 0
           then SKIP_CYCLES mcu0 True (if is32 then 3 else 2) skip
           else SKIP_CYCLES mcu0 True (if is32 then 2 else 1) skip)
        else
          (let k = (\<lambda>mcu. mcu\<lparr>pc := pc mcu + 2\<rparr>)
           in if xmega mcu0 \<noteq> 0 then SKIP_CYCLES mcu0 True 1 k else k mcu0))"

definition exec_push_pop :: "MSIM_AVR \<Rightarrow> u32 \<Rightarrow> u8 \<Rightarrow> MSIM_AVR" where
  "exec_push_pop mcu0 inst push =
    (let reg = uchar (drop_bit 4 inst AND 0x1F);
         fin = (\<lambda>mcu. mcu\<lparr>pc := pc mcu + 2\<rparr>)
     in if push \<noteq> 0 then
          (let k = (\<lambda>mcu. fin (MSIM_AVR_StackPush mcu (dm mcu (unat reg))))
           in if xmega mcu0 = 0 then SKIP_CYCLES mcu0 True 1 k else k mcu0)
        else
          SKIP_CYCLES mcu0 True 1 (\<lambda>mcu.
            let (v, mcu) = MSIM_AVR_StackPop mcu
            in fin (dm_set mcu (unat reg) v)))"

definition exec_movw :: "MSIM_AVR \<Rightarrow> u32 \<Rightarrow> MSIM_AVR" where
  "exec_movw mcu0 inst =
    (let regr = uchar (push_bit 1 (inst AND 0x0F));
         regd = uchar (push_bit 1 (drop_bit 4 inst AND 0x0F));
         mcu = dm_set mcu0 (unat (int_of regd + 1)) (dm mcu0 (unat (int_of regr + 1)));
         mcu = dm_set mcu (unat regd) (dm mcu (unat regr))
     in mcu\<lparr>pc := pc mcu + 2\<rparr>)"

definition exec_mov :: "MSIM_AVR \<Rightarrow> u32 \<Rightarrow> MSIM_AVR" where
  "exec_mov mcu0 inst =
    (let rr = uchar (drop_bit 5 (inst AND 0x200) OR (inst AND 0x0F));
         rd = uchar (drop_bit 4 (inst AND 0x1F0));
         mcu = dm_set mcu0 (unat rd) (dm mcu0 (unat rr))
     in mcu\<lparr>pc := pc mcu + 2\<rparr>)"

definition in_ram :: "MSIM_AVR \<Rightarrow> u32 \<Rightarrow> bool" where
  "in_ram mcu addr \<longleftrightarrow> ucast addr \<le> ramend mcu \<and> ramstart mcu \<le> ucast addr"

definition out_ram :: "MSIM_AVR \<Rightarrow> u32 \<Rightarrow> bool" where
  "out_ram mcu addr \<longleftrightarrow> ramend mcu < ucast addr \<and> ucast addr < ramstart mcu"

definition exec_ld :: "MSIM_AVR \<Rightarrow> u32 \<Rightarrow> nat \<Rightarrow> nat \<Rightarrow> u8 \<Rightarrow> MSIM_AVR" where
  "exec_ld mcu0 inst addr_low addr_high regd =
    (let addr = (int_of (dm mcu0 addr_low) OR push_bit 8 (int_of (dm mcu0 addr_high)) :: u32);
         fin = (\<lambda>mcu. mcu\<lparr>pc := pc mcu + 2\<rparr>)
     in if inst AND 0x03 = 0x00 then
          (let k = (\<lambda>mcu. fin (dm_set mcu (unat regd) (dm mcu (unat addr))))
           in if xmega mcu0 \<noteq> 0 \<and> in_ram mcu0 addr then SKIP_CYCLES mcu0 True 1 k else k mcu0)
        else if inst AND 0x03 = 0x01 then
          (let k = (\<lambda>mcu.
                 let mcu = dm_set mcu (unat regd) (dm mcu (unat addr));
                     addr = addr + 1;
                     mcu = dm_set mcu addr_low (uchar (addr AND 0xFF));
                     mcu = dm_set mcu addr_high (uchar (drop_bit 8 addr))
                 in fin mcu)
           in if xmega mcu0 = 0 then SKIP_CYCLES mcu0 True 1 k
              else if in_ram mcu0 addr then SKIP_CYCLES mcu0 True 1 k
              else k mcu0)
        else if inst AND 0x03 = 0x02 then
          (let k = (\<lambda>mcu.
                 let addr = addr - 1;
                     mcu = dm_set mcu addr_low (uchar (addr AND 0xFF));
                     mcu = dm_set mcu addr_high (uchar (drop_bit 8 addr));
                     mcu = dm_set mcu (unat regd) (dm mcu (unat addr))
                 in fin mcu)
           in if xmega mcu0 = 0 then SKIP_CYCLES mcu0 True 2 k
              else if in_ram mcu0 addr then SKIP_CYCLES mcu0 True 2 k
              else if out_ram mcu0 addr then SKIP_CYCLES mcu0 True 1 k
              else k mcu0)
        else fin mcu0)"

definition exec_ld_x :: "MSIM_AVR \<Rightarrow> u32 \<Rightarrow> MSIM_AVR" where
  "exec_ld_x mcu inst = exec_ld mcu inst 26 27 (uchar (drop_bit 4 (inst AND 0x01F0)))"

definition exec_ld_y :: "MSIM_AVR \<Rightarrow> u32 \<Rightarrow> MSIM_AVR" where
  "exec_ld_y mcu inst = exec_ld mcu inst 28 29 (uchar (drop_bit 4 (inst AND 0x01F0)))"

definition exec_ld_z :: "MSIM_AVR \<Rightarrow> u32 \<Rightarrow> MSIM_AVR" where
  "exec_ld_z mcu inst = exec_ld mcu inst 30 31 (uchar (drop_bit 4 (inst AND 0x01F0)))"

definition exec_ld_ydisp :: "MSIM_AVR \<Rightarrow> u32 \<Rightarrow> MSIM_AVR" where
  "exec_ld_ydisp mcu0 inst =
    (let addr = (int_of (dm mcu0 28) OR push_bit 8 (int_of (dm mcu0 29)) :: u32);
         k = (\<lambda>mcu.
           let regd = uchar (drop_bit 4 (inst AND 0x01F0));
               disp = ldd_disp inst;
               mcu = dm_set mcu (unat regd) (dm mcu (unat (addr + int_of disp)))
           in mcu\<lparr>pc := pc mcu + 2\<rparr>)
     in if xmega mcu0 = 0 then SKIP_CYCLES mcu0 True 1 k
        else if in_ram mcu0 addr then SKIP_CYCLES mcu0 True 2 k
        else if out_ram mcu0 addr then SKIP_CYCLES mcu0 True 1 k
        else k mcu0)"

definition exec_ld_zdisp :: "MSIM_AVR \<Rightarrow> u32 \<Rightarrow> MSIM_AVR" where
  "exec_ld_zdisp mcu0 inst =
    (let addr = (int_of (dm mcu0 30) OR push_bit 8 (int_of (dm mcu0 31)) :: u32);
         k = (\<lambda>mcu.
           let regd = uchar (drop_bit 4 (inst AND 0x01F0));
               disp = ldd_disp inst;
               mcu = dm_set mcu (unat regd) (dm mcu (unat (addr + int_of disp)))
           in mcu\<lparr>pc := pc mcu + 2\<rparr>)
     in if xmega mcu0 = 0 then SKIP_CYCLES mcu0 True 1 k
        else if in_ram mcu0 addr then SKIP_CYCLES mcu0 True 2 k
        else if out_ram mcu0 addr then SKIP_CYCLES mcu0 True 1 k
        else k mcu0)"

definition exec_sbci :: "MSIM_AVR \<Rightarrow> u32 \<Rightarrow> MSIM_AVR" where
  "exec_sbci mcu0 inst =
    (let rd_addr = uchar (drop_bit 4 (inst AND 0xF0) + 16);
         c = uchar (drop_bit 4 (inst AND 0xF00) OR (inst AND 0x0F));
         rd = dm mcu0 (unat rd_addr);
         r = uchar (int_of (dm mcu0 (unat rd_addr)) - int_of c -
                    int_of (MSIM_AVR_ReadSREGFlag mcu0 AVR_SREG_CARRY));
         mcu = dm_set mcu0 (unat rd_addr) r;
         mcu = mcu\<lparr>pc := pc mcu + 2\<rparr>;
         buf = sub_buf (int_of rd) (int_of c) (int_of r);
         mcu = MSIM_AVR_UpdateSREGFlag mcu AVR_SREG_CARRY (uchar (signed_drop_bit 7 buf AND 1));
         mcu = MSIM_AVR_UpdateSREGFlag mcu AVR_SREG_HALF_CARRY (uchar (signed_drop_bit 3 buf AND 1));
         mcu = MSIM_AVR_UpdateSREGFlag mcu AVR_SREG_NEGATIVE (uchar (drop_bit 7 (int_of r) AND 1));
         mcu = MSIM_AVR_UpdateSREGFlag mcu AVR_SREG_TWOSCOM_OF (uchar (sub_ovf (int_of rd) (int_of c) (int_of r)));
         mcu = update_sign mcu
     in MSIM_AVR_UpdateSREGFlag mcu AVR_SREG_ZERO (if r = 0 then 1 else 0))"

text \<open>
  The conditional branches share one body: the displacement, \<open>SKIP_CYCLES\<close> on the
  branch condition, then the jump or the step to the next word.
\<close>

definition cond_branch :: "MSIM_AVR \<Rightarrow> bool \<Rightarrow> u32 \<Rightarrow> MSIM_AVR" where
  "cond_branch mcu0 taken inst =
    (let c = br_disp inst
     in SKIP_CYCLES mcu0 taken 1 (\<lambda>mcu.
          if taken then mcu\<lparr>pc := pc_rel (pc mcu) c\<rparr> else mcu\<lparr>pc := pc mcu + 2\<rparr>))"

definition exec_brlt :: "MSIM_AVR \<Rightarrow> u32 \<Rightarrow> MSIM_AVR" where
  "exec_brlt mcu inst =
     cond_branch mcu ((MSIM_AVR_ReadSREGFlag mcu AVR_SREG_NEGATIVE XOR
                       MSIM_AVR_ReadSREGFlag mcu AVR_SREG_TWOSCOM_OF) \<noteq> 0) inst"

definition exec_brge :: "MSIM_AVR \<Rightarrow> u32 \<Rightarrow> MSIM_AVR" where
  "exec_brge mcu inst =
     cond_branch mcu ((MSIM_AVR_ReadSREGFlag mcu AVR_SREG_NEGATIVE XOR
                       MSIM_AVR_ReadSREGFlag mcu AVR_SREG_TWOSCOM_OF) = 0) inst"

definition exec_andi_cbr :: "MSIM_AVR \<Rightarrow> u32 \<Rightarrow> MSIM_AVR" where
  "exec_andi_cbr mcu0 inst =
    (let rd_addr = uchar ((drop_bit 4 inst AND 0x0F) + 16);
         c = uchar ((drop_bit 4 inst AND 0xF0) OR (inst AND 0x0F));
         r = dm mcu0 (unat rd_addr) AND c;
         mcu = dm_set mcu0 (unat rd_addr) r;
         mcu = mcu\<lparr>pc := pc mcu + 2\<rparr>;
         mcu = MSIM_AVR_UpdateSREGFlag mcu AVR_SREG_NEGATIVE (drop_bit 7 r AND 1);
         mcu = MSIM_AVR_UpdateSREGFlag mcu AVR_SREG_TWOSCOM_OF 0;
         mcu = update_sign mcu
     in MSIM_AVR_UpdateSREGFlag mcu AVR_SREG_ZERO (if r = 0 then 1 else 0))"

definition exec_and :: "MSIM_AVR \<Rightarrow> u32 \<Rightarrow> MSIM_AVR" where
  "exec_and mcu0 inst =
    (let rd_addr = uchar (drop_bit 4 (inst AND 0x1F0));
         rr_addr = uchar (drop_bit 5 (inst AND 0x200) OR (inst AND 0x0F));
         r = dm mcu0 (unat rd_addr) AND dm mcu0 (unat rr_addr);
         mcu = dm_set mcu0 (unat rd_addr) r;
         mcu = mcu\<lparr>pc := pc mcu + 2\<rparr>;
         mcu = MSIM_AVR_UpdateSREGFlag mcu AVR_SREG_NEGATIVE (drop_bit 7 r AND 1);
         mcu = MSIM_AVR_UpdateSREGFlag mcu AVR_SREG_TWOSCOM_OF 0;
         mcu = update_sign mcu
     in MSIM_AVR_UpdateSREGFlag mcu AVR_SREG_ZERO (if r = 0 then 1 else 0))"

definition adiw_regs :: "u8 list" where
  "adiw_regs = [24, 26, 28, 30]"

definition exec_sbiw :: "MSIM_AVR \<Rightarrow> u32 \<Rightarrow> MSIM_AVR" where
  "exec_sbiw mcu0 inst = SKIP_CYCLES mcu0 True 1 (\<lambda>mcu.
     let rdl_addr = adiw_regs ! unat (drop_bit 4 inst AND 0x03);
         rdh_addr = rdl_addr + 1;
         c = (drop_bit 2 inst AND 0x30) OR (inst AND 0x0F);
         buf = (push_bit 8 (int_of (dm mcu (unat rdh_addr))) OR int_of (dm mcu (unat rdl_addr)) :: u32);
         r = buf - c;
         buf = r AND NOT buf;
         mcu = MSIM_AVR_UpdateSREGFlag mcu AVR_SREG_CARRY (uchar (drop_bit 15 buf AND 1));
         mcu = MSIM_AVR_UpdateSREGFlag mcu AVR_SREG_NEGATIVE (uchar (drop_bit 15 r AND 1));
         mcu = MSIM_AVR_UpdateSREGFlag mcu AVR_SREG_TWOSCOM_OF (uchar (drop_bit 15 buf AND 1));
         mcu = update_sign mcu;
         mcu = MSIM_AVR_UpdateSREGFlag mcu AVR_SREG_ZERO (if r = 0 then 1 else 0);
         mcu = dm_set mcu (unat rdh_addr) (uchar (drop_bit 8 r AND 0xFF));
         mcu = dm_set mcu (unat rdl_addr) (uchar (r AND 0xFF))
     in mcu\<lparr>pc := pc mcu + 2\<rparr>)"

definition exec_brcc_brsh :: "MSIM_AVR \<Rightarrow> u32 \<Rightarrow> MSIM_AVR" where
  "exec_brcc_brsh mcu inst = cond_branch mcu (MSIM_AVR_ReadSREGFlag mcu AVR_SREG_CARRY = 0) inst"

definition exec_brcs_brlo :: "MSIM_AVR \<Rightarrow> u32 \<Rightarrow> MSIM_AVR" where
  "exec_brcs_brlo mcu inst = cond_branch mcu (MSIM_AVR_ReadSREGFlag mcu AVR_SREG_CARRY \<noteq> 0) inst"

text \<open>\<open>exec_sub\<close> computes the difference and the flags; it has no store to \<open>dm[rda]\<close>.\<close>

definition exec_sub :: "MSIM_AVR \<Rightarrow> u32 \<Rightarrow> MSIM_AVR" where
  "exec_sub mcu0 inst =
    (let rda = uchar (drop_bit 4 inst AND 0x1F);
         rra = uchar ((drop_bit 5 inst AND 0x10) OR (inst AND 0xF));
         rd = dm mcu0 (unat rda);
         rr = dm mcu0 (unat rra);
         r = uchar (int_of (dm mcu0 (unat rda)) - int_of (dm mcu0 (unat rra)));
         mcu = mcu0\<lparr>pc := pc mcu0 + 2\<rparr>;
         buf = sub_buf (int_of rd) (int_of rr) (int_of r);
         mcu = MSIM_AVR_UpdateSREGFlag mcu AVR_SREG_CARRY (uchar (signed_drop_bit 7 buf AND 1));
         mcu = MSIM_AVR_UpdateSREGFlag mcu AVR_SREG_ZERO (if r = 0 then 1 else 0);
         mcu = MSIM_AVR_UpdateSREGFlag mcu AVR_SREG_NEGATIVE (uchar (drop_bit 7 (int_of r) AND 1));
         mcu = MSIM_AVR_UpdateSREGFlag mcu AVR_SREG_TWOSCOM_OF (uchar (sub_ovf (int_of rd) (int_of rr) (int_of r)));
         mcu = update_sign mcu
     in MSIM_AVR_UpdateSREGFlag mcu AVR_SREG_HALF_CARRY (uchar (signed_drop_bit 3 buf AND 1)))"

definition exec_subi :: "MSIM_AVR \<Rightarrow> u32 \<Rightarrow> MSIM_AVR" where
  "exec_subi mcu0 inst =
    (let rd_addr = uchar (drop_bit 4 (inst AND 0xF0));
         c = uchar (drop_bit 4 (inst AND 0xF00) OR (inst AND 0xF));
         rd = dm mcu0 (unat (int_of rd_addr + 16));
         buf = int_of rd - int_of c;
         r = uchar buf;
         mcu = dm_set mcu0 (unat (int_of rd_addr + 16)) r;
         mcu = mcu\<lparr>pc := pc mcu + 2\<rparr>;
         buf = sub_buf (int_of rd) (int_of c) (int_of r);
         mcu = MSIM_AVR_UpdateSREGFlag mcu AVR_SREG_CARRY (uchar (signed_drop_bit 7 buf AND 1));
         mcu = MSIM_AVR_UpdateSREGFlag mcu AVR_SREG_HALF_CARRY (uchar (signed_drop_bit 3 buf AND 1));
         mcu = MSIM_AVR_UpdateSREGFlag mcu AVR_SREG_NEGATIVE (uchar (drop_bit 7 (int_of r) AND 1));
         mcu = MSIM_AVR_UpdateSREGFlag mcu AVR_SREG_TWOSCOM_OF (uchar (sub_ovf (int_of rd) (int_of c) (int_of r)));
         mcu = update_sign mcu
     in MSIM_AVR_UpdateSREGFlag mcu AVR_SREG_ZERO (if r = 0 then 1 else 0))"

text \<open>In \<open>exec_sbc\<close> the result \<open>r\<close> is an \<open>unsigned char\<close>.\<close>

definition exec_sbc :: "MSIM_AVR \<Rightarrow> u32 \<Rightarrow> MSIM_AVR" where
  "exec_sbc mcu0 inst =
    (let rda = uchar (drop_bit 4 inst AND 0x1F);
         rra = uchar ((drop_bit 5 inst AND 0x10) OR (inst AND 0xF));
         rd = dm mcu0 (unat rda);
         rr = dm mcu0 (unat rra);
         r = uchar (int_of (dm mcu0 (unat rda)) - int_of (dm mcu0 (unat rra)) -
                    int_of (MSIM_AVR_ReadSREGFlag mcu0 AVR_SREG_CARRY));
         mcu = dm_set mcu0 (unat rda) r;
         mcu = mcu\<lparr>pc := pc mcu + 2\<rparr>;
         buf = sub_buf (int_of rd) (int_of rr) (int_of r);
         mcu = MSIM_AVR_UpdateSREGFlag mcu AVR_SREG_CARRY (uchar (signed_drop_bit 7 buf AND 1));
         mcu = (if r \<noteq> 0 then MSIM_AVR_UpdateSREGFlag mcu AVR_SREG_ZERO 0 else mcu);
         mcu = MSIM_AVR_UpdateSREGFlag mcu AVR_SREG_NEGATIVE (uchar (drop_bit 7 (int_of r) AND 1));
         mcu = MSIM_AVR_UpdateSREGFlag mcu AVR_SREG_TWOSCOM_OF (uchar (sub_ovf (int_of rd) (int_of rr) (int_of r)));
         mcu = update_sign mcu
     in MSIM_AVR_UpdateSREGFlag mcu AVR_SREG_HALF_CARRY (uchar (signed_drop_bit 3 buf AND 1)))"

text \<open>
  In \<open>exec_adiw\<close> the sum \<open>r = rd + c\<close> is an \<open>unsigned int\<close>: the zero test and the
  stores read it without a cut to sixteen bits.
\<close>

definition exec_adiw :: "MSIM_AVR \<Rightarrow> u32 \<Rightarrow> MSIM_AVR" where
  "exec_adiw mcu0 inst = SKIP_CYCLES mcu0 True 1 (\<lambda>mcu.
     let rdl_addr = adiw_regs ! unat (drop_bit 4 inst AND 3);
         rdh_addr = rdl_addr + 1;
         c = (drop_bit 2 inst AND 0x30) OR (inst AND 0x0F);
         rd = (push_bit 8 (int_of (dm mcu (unat rdh_addr))) OR int_of (dm mcu (unat rdl_addr)) :: u32);
         r = rd + c;
         mcu = MSIM_AVR_UpdateSREGFlag mcu AVR_SREG_CARRY (uchar (drop_bit 15 (NOT r AND rd) AND 1));
         mcu = MSIM_AVR_UpdateSREGFlag mcu AVR_SREG_NEGATIVE (uchar (drop_bit 15 r AND 1));
         mcu = MSIM_AVR_UpdateSREGFlag mcu AVR_SREG_TWOSCOM_OF (uchar (drop_bit 15 (r AND NOT rd) AND 1));
         mcu = update_sign mcu;
         mcu = MSIM_AVR_UpdateSREGFlag mcu AVR_SREG_ZERO (if r = 0 then 1 else 0);
         mcu = dm_set mcu (unat rdh_addr) (uchar (drop_bit 8 r AND 0xFF));
         mcu = dm_set mcu (unat rdl_addr) (uchar (r AND 0xFF))
     in mcu\<lparr>pc := pc mcu + 2\<rparr>)"

definition exec_adc_rol :: "MSIM_AVR \<Rightarrow> u32 \<Rightarrow> MSIM_AVR" where
  "exec_adc_rol mcu0 inst =
    (let rd_addr = uchar (drop_bit 4 (inst AND 0x1F0));
         rr_addr = uchar (drop_bit 5 (inst AND 0x200) OR (inst AND 0x0F));
         rd = dm mcu0 (unat rd_addr);
         rr = dm mcu0 (unat rr_addr);
         r = uchar (int_of rd + int_of rr + int_of (MSIM_AVR_ReadSREGFlag mcu0 AVR_SREG_CARRY));
         mcu = dm_set mcu0 (unat rd_addr) r;
         buf = add_buf (int_of rd) (int_of rr) (int_of r);
         mcu = MSIM_AVR_UpdateSREGFlag mcu AVR_SREG_CARRY (uchar (signed_drop_bit 7 buf AND 1));
         mcu = MSIM_AVR_UpdateSREGFlag mcu AVR_SREG_ZERO (if r = 0 then 1 else 0);
         mcu = MSIM_AVR_UpdateSREGFlag mcu AVR_SREG_NEGATIVE (uchar (drop_bit 7 (int_of r) AND 1));
         mcu = MSIM_AVR_UpdateSREGFlag mcu AVR_SREG_TWOSCOM_OF (uchar (add_ovf (int_of rd) (int_of rr) (int_of r)));
         mcu = update_sign mcu;
         mcu = MSIM_AVR_UpdateSREGFlag mcu AVR_SREG_HALF_CARRY (uchar (signed_drop_bit 3 buf AND 1))
     in mcu\<lparr>pc := pc mcu + 2\<rparr>)"

definition exec_add_lsl :: "MSIM_AVR \<Rightarrow> u32 \<Rightarrow> MSIM_AVR" where
  "exec_add_lsl mcu0 inst =
    (let rd_addr = uchar (drop_bit 4 (inst AND 0x1F0));
         rr_addr = uchar (drop_bit 5 (inst AND 0x200) OR (inst AND 0x0F));
         rd = dm mcu0 (unat rd_addr);
         rr = dm mcu0 (unat rr_addr);
         r = uchar (int_of rd + int_of rr);
         mcu = dm_set mcu0 (unat rd_addr) r;
         buf = add_buf (int_of rd) (int_of rr) (int_of r);
         mcu = MSIM_AVR_UpdateSREGFlag mcu AVR_SREG_CARRY (uchar (signed_drop_bit 7 buf AND 1));
         mcu = MSIM_AVR_UpdateSREGFlag mcu AVR_SREG_ZERO (if r = 0 then 1 else 0);
         mcu = MSIM_AVR_UpdateSREGFlag mcu AVR_SREG_NEGATIVE (uchar (drop_bit 7 (int_of r) AND 1));
         mcu = MSIM_AVR_UpdateSREGFlag mcu AVR_SREG_TWOSCOM_OF (uchar (add_ovf (int_of rd) (int_of rr) (int_of r)));
         mcu = update_sign mcu;
         mcu = MSIM_AVR_UpdateSREGFlag mcu AVR_SREG_HALF_CARRY (uchar (signed_drop_bit 3 buf AND 1))
     in mcu\<lparr>pc := pc mcu + 2\<rparr>)"

definition exec_asr :: "MSIM_AVR \<Rightarrow> u32 \<Rightarrow> MSIM_AVR" where
  "exec_asr mcu0 inst =
    (let rd_addr = uchar (drop_bit 4 (inst AND 0x1F0));
         rd = dm mcu0 (unat rd_addr);
         msb_orig = drop_bit 7 rd AND 1;
         lsb_orig = rd AND 1;
         r = drop_bit 1 rd;
         r = (if msb_orig \<noteq> 0 then r OR uchar (push_bit 7 1)
              else r AND uchar (NOT (push_bit 7 1)));
         mcu = dm_set mcu0 (unat rd_addr) r;
         mcu = MSIM_AVR_UpdateSREGFlag mcu AVR_SREG_CARRY lsb_orig;
         mcu = MSIM_AVR_UpdateSREGFlag mcu AVR_SREG_ZERO (if r = 0 then 1 else 0);
         mcu = MSIM_AVR_UpdateSREGFlag mcu AVR_SREG_NEGATIVE msb_orig;
         mcu = MSIM_AVR_UpdateSREGFlag mcu AVR_SREG_TWOSCOM_OF
                 (MSIM_AVR_ReadSREGFlag mcu AVR_SREG_NEGATIVE XOR
                  MSIM_AVR_ReadSREGFlag mcu AVR_SREG_CARRY);
         mcu = update_sign mcu
     in mcu\<lparr>pc := pc mcu + 2\<rparr>)"

definition sreg_set :: "MSIM_AVR \<Rightarrow> u8 \<Rightarrow> MSIM_AVR" where
  "sreg_set mcu v = dm_set mcu (sreg mcu) v"

definition exec_bclr :: "MSIM_AVR \<Rightarrow> u32 \<Rightarrow> MSIM_AVR" where
  "exec_bclr mcu0 inst =
    (let bit_n = uchar (drop_bit 4 (inst AND 0x70));
         mcu = sreg_set mcu0 (dm mcu0 (sreg mcu0) AND
                 uchar (NOT (push_bit (unat bit_n) 1 AND 0xFF)))
     in mcu\<lparr>pc := pc mcu + 2\<rparr>)"

definition exec_bld :: "MSIM_AVR \<Rightarrow> u32 \<Rightarrow> MSIM_AVR" where
  "exec_bld mcu0 inst =
    (let rd_addr = uchar (drop_bit 4 (inst AND 0x1F0));
         bit_n = uchar (inst AND 0x07);
         t = MSIM_AVR_ReadSREGFlag mcu0 AVR_SREG_T_BIT;
         mcu = (if t \<noteq> 0
                then dm_set mcu0 (unat rd_addr)
                       (dm mcu0 (unat rd_addr) OR uchar (push_bit (unat bit_n) 1 AND 0xFF))
                else dm_set mcu0 (unat rd_addr)
                       (dm mcu0 (unat rd_addr) AND uchar (NOT (push_bit (unat bit_n) 1 AND 0xFF))))
     in mcu\<lparr>pc := pc mcu + 2\<rparr>)"

definition exec_brbc :: "MSIM_AVR \<Rightarrow> u32 \<Rightarrow> MSIM_AVR" where
  "exec_brbc mcu inst =
     cond_branch mcu
       (uchar (drop_bit (unat (inst AND 0x07)) (int_of (dm mcu (sreg mcu))) AND 1) = 0) inst"

definition exec_brbs :: "MSIM_AVR \<Rightarrow> u32 \<Rightarrow> MSIM_AVR" where
  "exec_brbs mcu inst =
     cond_branch mcu
       (uchar (drop_bit (unat (inst AND 0x07)) (int_of (dm mcu (sreg mcu))) AND 1) \<noteq> 0) inst"

definition exec_break :: "MSIM_AVR \<Rightarrow> MSIM_AVR" where
  "exec_break mcu = mcu\<lparr>state := AVR_STOPPED, read_from_mpm := 1\<rparr>"

definition exec_breq :: "MSIM_AVR \<Rightarrow> u32 \<Rightarrow> MSIM_AVR" where
  "exec_breq mcu inst = cond_branch mcu (MSIM_AVR_ReadSREGFlag mcu AVR_SREG_ZERO \<noteq> 0) inst"

definition exec_brhc :: "MSIM_AVR \<Rightarrow> u32 \<Rightarrow> MSIM_AVR" where
  "exec_brhc mcu inst = cond_branch mcu (MSIM_AVR_ReadSREGFlag mcu AVR_SREG_HALF_CARRY = 0) inst"

definition exec_brhs :: "MSIM_AVR \<Rightarrow> u32 \<Rightarrow> MSIM_AVR" where
  "exec_brhs mcu inst = cond_branch mcu (MSIM_AVR_ReadSREGFlag mcu AVR_SREG_HALF_CARRY \<noteq> 0) inst"

definition exec_brid :: "MSIM_AVR \<Rightarrow> u32 \<Rightarrow> MSIM_AVR" where
  "exec_brid mcu inst = cond_branch mcu (MSIM_AVR_ReadSREGFlag mcu AVR_SREG_GLOB_INT = 0) inst"

definition exec_brie :: "MSIM_AVR \<Rightarrow> u32 \<Rightarrow> MSIM_AVR" where
  "exec_brie mcu inst = cond_branch mcu (MSIM_AVR_ReadSREGFlag mcu AVR_SREG_GLOB_INT \<noteq> 0) inst"

definition exec_brmi :: "MSIM_AVR \<Rightarrow> u32 \<Rightarrow> MSIM_AVR" where
  "exec_brmi mcu inst = cond_branch mcu (MSIM_AVR_ReadSREGFlag mcu AVR_SREG_NEGATIVE \<noteq> 0) inst"

definition exec_brpl :: "MSIM_AVR \<Rightarrow> u32 \<Rightarrow> MSIM_AVR" where
  "exec_brpl mcu inst = cond_branch mcu (MSIM_AVR_ReadSREGFlag mcu AVR_SREG_NEGATIVE = 0) inst"

definition exec_brtc :: "MSIM_AVR \<Rightarrow> u32 \<Rightarrow> MSIM_AVR" where
  "exec_brtc mcu inst = cond_branch mcu (MSIM_AVR_ReadSREGFlag mcu AVR_SREG_T_BIT = 0) inst"

definition exec_brts :: "MSIM_AVR \<Rightarrow> u32 \<Rightarrow> MSIM_AVR" where
  "exec_brts mcu inst = cond_branch mcu (MSIM_AVR_ReadSREGFlag mcu AVR_SREG_T_BIT \<noteq> 0) inst"

definition exec_brvc :: "MSIM_AVR \<Rightarrow> u32 \<Rightarrow> MSIM_AVR" where
  "exec_brvc mcu inst = cond_branch mcu (MSIM_AVR_ReadSREGFlag mcu AVR_SREG_TWOSCOM_OF = 0) inst"

definition exec_brvs :: "MSIM_AVR \<Rightarrow> u32 \<Rightarrow> MSIM_AVR" where
  "exec_brvs mcu inst = cond_branch mcu (MSIM_AVR_ReadSREGFlag mcu AVR_SREG_TWOSCOM_OF \<noteq> 0) inst"

definition exec_bset :: "MSIM_AVR \<Rightarrow> u32 \<Rightarrow> MSIM_AVR" where
  "exec_bset mcu0 inst =
    (let bit_n = drop_bit 4 (inst AND 0x70);
         mcu = sreg_set mcu0 (dm mcu0 (sreg mcu0) OR uchar (push_bit (unat bit_n) 1 AND 0xFF))
     in mcu\<lparr>pc := pc mcu + 2\<rparr>)"

definition exec_bst :: "MSIM_AVR \<Rightarrow> u32 \<Rightarrow> MSIM_AVR" where
  "exec_bst mcu0 inst =
    (let b = uchar (inst AND 0x07);
         rd_addr = uchar (drop_bit 4 inst AND 0x1F);
         mcu = MSIM_AVR_UpdateSREGFlag mcu0 AVR_SREG_T_BIT
                 (uchar (drop_bit (unat b) (int_of (dm mcu0 (unat rd_addr))) AND 1))
     in mcu\<lparr>pc := pc mcu + 2\<rparr>)"

text \<open>
  \<open>exec_call\<close> writes the cycle bookkeeping out by hand instead of using the macro.
\<close>

definition exec_call :: "MSIM_AVR \<Rightarrow> u32 \<Rightarrow> MSIM_AVR" where
  "exec_call mcu0 inst_msb =
    (let k = (\<lambda>mcu1.
           let mcu = mcu1\<lparr>in_mcinst := 0\<rparr>;
               lsb = pm mcu (unat (pc mcu + 2));
               msb = pm mcu (unat (pc mcu + 3));
               inst_lsb = (int_of lsb OR push_bit 8 (int_of msb) :: u32);
               p = pc mcu + 4;
               c = (ucast ((inst_lsb AND 0xFFFF) OR
                      push_bit 16 ((drop_bit 3 inst_msb AND 0x3E) OR (inst_msb AND 1))) :: u64);
               mcu = push_pc mcu p
           in mcu\<lparr>pc := push_bit 1 c\<rparr>)
     in if in_mcinst mcu0 = 0 then
          mcu0\<lparr>in_mcinst := 1,
                ic_left := (if xmega mcu0 = 0 then (if 16 < pc_bits mcu0 then 4 else 3)
                            else (if 16 < pc_bits mcu0 then 3 else 2))\<rparr>
        else if ic_left mcu0 \<noteq> 0 then
          (if ic_left mcu0 - 1 \<noteq> 0 then mcu0\<lparr>ic_left := ic_left mcu0 - 1\<rparr>
           else k (mcu0\<lparr>ic_left := ic_left mcu0 - 1\<rparr>))
        else k mcu0)"

definition set_flag :: "MSIM_AVR \<Rightarrow> MSIM_AVR_SREGFlag \<Rightarrow> u8 \<Rightarrow> MSIM_AVR" where
  "set_flag mcu0 flag v =
    (let mcu = MSIM_AVR_UpdateSREGFlag mcu0 flag v in mcu\<lparr>pc := pc mcu + 2\<rparr>)"

definition exec_clc :: "MSIM_AVR \<Rightarrow> MSIM_AVR" where
  "exec_clc mcu = set_flag mcu AVR_SREG_CARRY 0"

definition exec_sec :: "MSIM_AVR \<Rightarrow> MSIM_AVR" where
  "exec_sec mcu = set_flag mcu AVR_SREG_CARRY 1"

definition exec_clh :: "MSIM_AVR \<Rightarrow> MSIM_AVR" where
  "exec_clh mcu = set_flag mcu AVR_SREG_HALF_CARRY 0"

definition exec_seh :: "MSIM_AVR \<Rightarrow> MSIM_AVR" where
  "exec_seh mcu = set_flag mcu AVR_SREG_HALF_CARRY 1"

definition exec_cli :: "MSIM_AVR \<Rightarrow> MSIM_AVR" where
  "exec_cli mcu = set_flag mcu AVR_SREG_GLOB_INT 0"

definition exec_sei :: "MSIM_AVR \<Rightarrow> MSIM_AVR" where
  "exec_sei mcu = set_flag mcu AVR_SREG_GLOB_INT 1"

definition exec_cln :: "MSIM_AVR \<Rightarrow> MSIM_AVR" where
  "exec_cln mcu = set_flag mcu AVR_SREG_NEGATIVE 0"

definition exec_sen :: "MSIM_AVR \<Rightarrow> MSIM_AVR" where
  "exec_sen mcu = set_flag mcu AVR_SREG_NEGATIVE 1"

definition exec_cls :: "MSIM_AVR \<Rightarrow> MSIM_AVR" where
  "exec_cls mcu = set_flag mcu AVR_SREG_SIGN 0"

definition exec_ses :: "MSIM_AVR \<Rightarrow> MSIM_AVR" where
  "exec_ses mcu = set_flag mcu AVR_SREG_SIGN 1"

definition exec_clt :: "MSIM_AVR \<Rightarrow> MSIM_AVR" where
  "exec_clt mcu = set_flag mcu AVR_SREG_T_BIT 0"

definition exec_set :: "MSIM_AVR \<Rightarrow> MSIM_AVR" where
  "exec_set mcu = set_flag mcu AVR_SREG_T_BIT 1"

definition exec_clv :: "MSIM_AVR \<Rightarrow> MSIM_AVR" where
  "exec_clv mcu = set_flag mcu AVR_SREG_TWOSCOM_OF 0"

definition exec_sev :: "MSIM_AVR \<Rightarrow> MSIM_AVR" where
  "exec_sev mcu = set_flag mcu AVR_SREG_TWOSCOM_OF 1"

definition exec_clz :: "MSIM_AVR \<Rightarrow> MSIM_AVR" where
  "exec_clz mcu = set_flag mcu AVR_SREG_ZERO 0"

definition exec_sez :: "MSIM_AVR \<Rightarrow> MSIM_AVR" where
  "exec_sez mcu = set_flag mcu AVR_SREG_ZERO 1"

definition exec_com :: "MSIM_AVR \<Rightarrow> u32 \<Rightarrow> MSIM_AVR" where
  "exec_com mcu0 inst =
    (let rd_addr = uchar (drop_bit 4 inst AND 0x1F);
         r = uchar (NOT (int_of (dm mcu0 (unat rd_addr))));
         mcu = dm_set mcu0 (unat rd_addr) r;
         mcu = mcu\<lparr>pc := pc mcu + 2\<rparr>;
         mcu = MSIM_AVR_UpdateSREGFlag mcu AVR_SREG_CARRY 1;
         mcu = MSIM_AVR_UpdateSREGFlag mcu AVR_SREG_ZERO (if r = 0 then 1 else 0);
         mcu = MSIM_AVR_UpdateSREGFlag mcu AVR_SREG_NEGATIVE (drop_bit 7 r AND 1);
         mcu = MSIM_AVR_UpdateSREGFlag mcu AVR_SREG_TWOSCOM_OF 0
     in update_sign mcu)"

text \<open>
  The skip instructions \<open>exec_cpse\<close>, \<open>exec_sbrc\<close> and \<open>exec_sbrs\<close> hand
  \<open>mcu->pm[mcu->pc+2]\<close>, one byte of the next instruction, to \<open>MSIM_AVR_Is32\<close>.
\<close>

definition exec_cpse :: "MSIM_AVR \<Rightarrow> u32 \<Rightarrow> MSIM_AVR" where
  "exec_cpse mcu0 inst =
    (let rd_addr = uchar (drop_bit 4 inst AND 0x1F);
         rr_addr = uchar ((drop_bit 5 inst AND 0x10) OR (inst AND 0x0F));
         is32 = MSIM_AVR_Is32 (int_of (pm mcu0 (unat (pc mcu0 + 2))));
         f = (dm mcu0 (unat rd_addr) = dm mcu0 (unat rr_addr))
     in SKIP_CYCLES mcu0 f (if is32 then 2 else 1) (\<lambda>mcu.
          if f then mcu\<lparr>pc := pc mcu + (if is32 then 6 else 4)\<rparr>
          else mcu\<lparr>pc := pc mcu + 2\<rparr>))"

definition exec_dec :: "MSIM_AVR \<Rightarrow> u32 \<Rightarrow> MSIM_AVR" where
  "exec_dec mcu0 inst =
    (let rd_addr = (ucast (drop_bit 4 inst AND 0x1F) :: u16);
         rd = (ucast (dm mcu0 (unat rd_addr)) :: u16);
         val = int_of (dm mcu0 (unat rd_addr)) - 1;
         r = (ucast (uchar val) :: u16);
         mcu = dm_set mcu0 (unat rd_addr) (uchar val);
         mcu = mcu\<lparr>pc := pc mcu + 2\<rparr>;
         mcu = MSIM_AVR_UpdateSREGFlag mcu AVR_SREG_ZERO (if r = 0 then 1 else 0);
         mcu = MSIM_AVR_UpdateSREGFlag mcu AVR_SREG_NEGATIVE (ucast (drop_bit 7 r AND 1));
         mcu = MSIM_AVR_UpdateSREGFlag mcu AVR_SREG_TWOSCOM_OF (if rd = 0x80 then 1 else 0)
     in update_sign mcu)"

text \<open>
  The fractional multiplications store \<open>(r << 1) & 0x0F\<close> and \<open>(r >> 7) & 0x0F\<close>:
  the masks are \<open>0x0F\<close> in the source.
\<close>

definition exec_fmul :: "MSIM_AVR \<Rightarrow> u32 \<Rightarrow> MSIM_AVR" where
  "exec_fmul mcu0 inst = SKIP_CYCLES mcu0 True 1 (\<lambda>mcu.
     let rd_addr = (ucast (0x10 + (drop_bit 4 inst AND 7)) :: u16);
         rr_addr = (ucast (0x10 + (inst AND 7)) :: u16);
         r = (ucast (int_of (dm mcu (unat rd_addr)) * int_of (dm mcu (unat rr_addr))) :: u16);
         ri = (ucast r :: u32);
         mcu = dm_set mcu 0 (uchar (push_bit 1 ri AND 0x0F));
         mcu = dm_set mcu 1 (uchar (drop_bit 7 ri AND 0x0F));
         mcu = mcu\<lparr>pc := pc mcu + 2\<rparr>;
         mcu = MSIM_AVR_UpdateSREGFlag mcu AVR_SREG_CARRY (uchar (drop_bit 15 ri AND 1))
     in MSIM_AVR_UpdateSREGFlag mcu AVR_SREG_ZERO (if r = 0 then 1 else 0))"

definition exec_fmuls :: "MSIM_AVR \<Rightarrow> u32 \<Rightarrow> MSIM_AVR" where
  "exec_fmuls mcu0 inst = SKIP_CYCLES mcu0 True 1 (\<lambda>mcu.
     let rd_addr = (ucast (0x10 + (drop_bit 4 inst AND 7)) :: u16);
         rr_addr = (ucast (0x10 + (inst AND 7)) :: u16);
         r = (ucast ((scast (dm mcu (unat rd_addr)) :: u32) *
                     (scast (dm mcu (unat rr_addr)) :: u32)) :: u16);
         ri = (scast r :: u32);
         mcu = dm_set mcu 0 (uchar (push_bit 1 ri AND 0x0F));
         mcu = dm_set mcu 1 (uchar (signed_drop_bit 7 ri AND 0x0F));
         mcu = mcu\<lparr>pc := pc mcu + 2\<rparr>;
         mcu = MSIM_AVR_UpdateSREGFlag mcu AVR_SREG_CARRY (uchar (signed_drop_bit 15 ri AND 1))
     in MSIM_AVR_UpdateSREGFlag mcu AVR_SREG_ZERO (if r = 0 then 1 else 0))"

definition exec_fmulsu :: "MSIM_AVR \<Rightarrow> u32 \<Rightarrow> MSIM_AVR" where
  "exec_fmulsu mcu0 inst = SKIP_CYCLES mcu0 True 1 (\<lambda>mcu.
     let rd_addr = (ucast (0x10 + (drop_bit 4 inst AND 7)) :: u16);
         rr_addr = (ucast (0x10 + (inst AND 7)) :: u16);
         r = (ucast ((scast (dm mcu (unat rd_addr)) :: u32) *
                     int_of (dm mcu (unat rr_addr))) :: u16);
         ri = (scast r :: u32);
         mcu = dm_set mcu 0 (uchar (push_bit 1 ri AND 0x0F));
         mcu = dm_set mcu 1 (uchar (signed_drop_bit 7 ri AND 0x0F));
         mcu = mcu\<lparr>pc := pc mcu + 2\<rparr>;
         mcu = MSIM_AVR_UpdateSREGFlag mcu AVR_SREG_CARRY (uchar (signed_drop_bit 15 ri AND 1))
     in MSIM_AVR_UpdateSREGFlag mcu AVR_SREG_ZERO (if r = 0 then 1 else 0))"

definition REG_ZH :: nat where "REG_ZH = 0x1F"
definition REG_ZL :: nat where "REG_ZL = 0x1E"

definition z_pointer :: "MSIM_AVR \<Rightarrow> u32" where
  "z_pointer mcu =
     (push_bit 8 (int_of (dm mcu REG_ZH)) AND 0xFF00) OR (int_of (dm mcu REG_ZL) AND 0xFF)"

definition exec_icall :: "MSIM_AVR \<Rightarrow> MSIM_AVR" where
  "exec_icall mcu0 =
    (let k = (\<lambda>mcu.
           let p = pc mcu + 2;
               z = z_pointer mcu;
               mcu = push_pc mcu p
           in mcu\<lparr>pc := ucast z\<rparr>)
     in if xmega mcu0 \<noteq> 0
        then SKIP_CYCLES mcu0 True (if 16 < pc_bits mcu0 then 2 else 1) k
        else SKIP_CYCLES mcu0 True (if 16 < pc_bits mcu0 then 3 else 2) k)"

definition exec_ijmp :: "MSIM_AVR \<Rightarrow> MSIM_AVR" where
  "exec_ijmp mcu0 = SKIP_CYCLES mcu0 True 1 (\<lambda>mcu. mcu\<lparr>pc := ucast (z_pointer mcu)\<rparr>)"

definition exec_inc :: "MSIM_AVR \<Rightarrow> u32 \<Rightarrow> MSIM_AVR" where
  "exec_inc mcu0 inst =
    (let rd_addr = (ucast (drop_bit 4 inst AND 0x1F) :: u16);
         rd = (ucast (dm mcu0 (unat rd_addr)) :: u16);
         val = int_of (dm mcu0 (unat rd_addr)) + 1;
         r = (ucast (uchar val) :: u16);
         mcu = dm_set mcu0 (unat rd_addr) (ucast r);
         mcu = mcu\<lparr>pc := pc mcu + 2\<rparr>;
         mcu = MSIM_AVR_UpdateSREGFlag mcu AVR_SREG_ZERO (if r = 0 then 1 else 0);
         mcu = MSIM_AVR_UpdateSREGFlag mcu AVR_SREG_NEGATIVE (ucast (drop_bit 7 r AND 1));
         mcu = MSIM_AVR_UpdateSREGFlag mcu AVR_SREG_TWOSCOM_OF (if rd = 0x7F then 1 else 0)
     in update_sign mcu)"

definition exec_jmp :: "MSIM_AVR \<Rightarrow> u32 \<Rightarrow> MSIM_AVR" where
  "exec_jmp mcu0 inst = SKIP_CYCLES mcu0 True 2 (\<lambda>mcu.
     let msb = ((push_bit 8 (int_of (pm mcu (unat (pc mcu + 3)))) AND 0xFF00) OR
                (int_of (pm mcu (unat (pc mcu + 2))) AND 0xFF) :: u32);
         c = (ucast (msb OR push_bit 16 ((drop_bit 3 inst AND 0x3E) OR (inst AND 0x01))) :: u64)
     in mcu\<lparr>pc := push_bit 1 c\<rparr>)"

definition exec_lac :: "MSIM_AVR \<Rightarrow> u32 \<Rightarrow> MSIM_AVR" where
  "exec_lac mcu0 inst = SKIP_CYCLES mcu0 True 1 (\<lambda>mcu.
     let z = (ucast (z_pointer mcu) :: u16);
         rd_addr = (ucast (drop_bit 4 inst AND 0x1F) :: u16);
         rd = dm mcu (unat rd_addr);
         mcu = dm_set mcu (unat rd_addr) (dm mcu (unat z));
         mcu = dm_set mcu (unat z) (dm mcu (unat z) AND uchar (NOT (int_of rd)))
     in mcu\<lparr>pc := pc mcu + 2\<rparr>)"

definition exec_las :: "MSIM_AVR \<Rightarrow> u32 \<Rightarrow> MSIM_AVR" where
  "exec_las mcu0 inst = SKIP_CYCLES mcu0 True 1 (\<lambda>mcu.
     let z = (ucast (z_pointer mcu) :: u16);
         rd_addr = (ucast (drop_bit 4 inst AND 0x1F) :: u16);
         rd = dm mcu (unat rd_addr);
         mcu = dm_set mcu (unat rd_addr) (dm mcu (unat z));
         mcu = dm_set mcu (unat z) (dm mcu (unat z) OR rd)
     in mcu\<lparr>pc := pc mcu + 2\<rparr>)"

definition exec_lat :: "MSIM_AVR \<Rightarrow> u32 \<Rightarrow> MSIM_AVR" where
  "exec_lat mcu0 inst = SKIP_CYCLES mcu0 True 1 (\<lambda>mcu.
     let z = (ucast (z_pointer mcu) :: u16);
         rd_addr = (ucast (drop_bit 4 inst AND 0x1F) :: u16);
         rd = dm mcu (unat rd_addr);
         mcu = dm_set mcu (unat rd_addr) (dm mcu (unat z));
         mcu = dm_set mcu (unat z) (dm mcu (unat z) XOR rd)
     in mcu\<lparr>pc := pc mcu + 2\<rparr>)"

definition exec_lds :: "MSIM_AVR \<Rightarrow> u32 \<Rightarrow> MSIM_AVR" where
  "exec_lds mcu0 inst =
    (let i2 = pm mcu0 (unat (pc mcu0 + 2));
         i3 = pm mcu0 (unat (pc mcu0 + 3));
         addr = (ucast ((push_bit 8 (int_of i3) AND 0xFF00) OR (int_of i2 AND 0xFF)) :: u16);
         k = (\<lambda>mcu.
           let rd_addr = (ucast (drop_bit 4 inst AND 0x1F) :: u16);
               mcu = dm_set mcu (unat rd_addr) (dm mcu (unat addr))
           in mcu\<lparr>pc := pc mcu + 4\<rparr>)
     in if xmega mcu0 = 0 then SKIP_CYCLES mcu0 True 1 k
        else SKIP_CYCLES mcu0 True (if in_ram mcu0 (ucast addr) then 2 else 1) k)"

definition exec_lds16 :: "MSIM_AVR \<Rightarrow> u32 \<Rightarrow> MSIM_AVR" where
  "exec_lds16 mcu0 inst =
    (let addr = (ucast ((drop_bit 1 (NOT inst) AND 0x80) OR (drop_bit 2 inst AND 0x40) OR
                        (drop_bit 5 inst AND 0x30) OR (inst AND 0x0F)) :: u16);
         rd_addr = (ucast ((drop_bit 4 inst AND 0x0F) + 16) :: u16);
         mcu = dm_set mcu0 (unat rd_addr) (dm mcu0 (unat addr))
     in mcu\<lparr>pc := pc mcu + 2\<rparr>)"

definition exec_lpm :: "MSIM_AVR \<Rightarrow> u32 \<Rightarrow> MSIM_AVR" where
  "exec_lpm mcu0 inst = SKIP_CYCLES mcu0 True 2 (\<lambda>mcu.
     let z = (ucast (z_pointer mcu) :: u16);
         rd_addr = (ucast (drop_bit 4 inst AND 0x1F) :: u16);
         mcu =
           (if inst = 0x95C8 then dm_set mcu 0 (pm mcu (unat z))
            else if inst AND 0xFE0F = 0x9004 then dm_set mcu (unat rd_addr) (pm mcu (unat z))
            else if inst AND 0xFE0F = 0x9005 then
              (let mcu = dm_set mcu (unat rd_addr) (pm mcu (unat z));
                   z = z + 1;
                   mcu = dm_set mcu REG_ZH (ucast (drop_bit 8 z AND 0xFF))
               in dm_set mcu REG_ZL (ucast (z AND 0xFF)))
            else mcu)
     in mcu\<lparr>pc := pc mcu + 2\<rparr>)"

definition exec_lsr :: "MSIM_AVR \<Rightarrow> u32 \<Rightarrow> MSIM_AVR" where
  "exec_lsr mcu0 inst =
    (let rd_addr = (ucast (drop_bit 4 inst AND 0x1F) :: u16);
         rd = dm mcu0 (unat rd_addr);
         r = uchar (drop_bit 1 (int_of rd) AND 0xFF);
         mcu = dm_set mcu0 (unat rd_addr) r;
         mcu = mcu\<lparr>pc := pc mcu + 2\<rparr>;
         mcu = MSIM_AVR_UpdateSREGFlag mcu AVR_SREG_CARRY (rd AND 1);
         mcu = MSIM_AVR_UpdateSREGFlag mcu AVR_SREG_ZERO (if r = 0 then 1 else 0);
         mcu = MSIM_AVR_UpdateSREGFlag mcu AVR_SREG_NEGATIVE 0;
         mcu = MSIM_AVR_UpdateSREGFlag mcu AVR_SREG_TWOSCOM_OF
                 (MSIM_AVR_ReadSREGFlag mcu AVR_SREG_NEGATIVE XOR
                  MSIM_AVR_ReadSREGFlag mcu AVR_SREG_CARRY)
     in update_sign mcu)"

definition exec_sbrc :: "MSIM_AVR \<Rightarrow> u32 \<Rightarrow> MSIM_AVR" where
  "exec_sbrc mcu0 inst =
    (let rr_addr = (ucast (drop_bit 4 inst AND 0x1F) :: u16);
         bit_n = uchar (inst AND 7);
         r = uchar (drop_bit (unat bit_n) (int_of (dm mcu0 (unat rr_addr))) AND 1)
     in SKIP_CYCLES mcu0 (r = 0)
          (if MSIM_AVR_Is32 (int_of (pm mcu0 (unat (pc mcu0 + 2)))) then 2 else 1) (\<lambda>mcu.
          if r = 0
          then mcu\<lparr>pc := pc mcu +
                 (if MSIM_AVR_Is32 (int_of (pm mcu (unat (pc mcu + 2)))) then 6 else 4)\<rparr>
          else mcu\<lparr>pc := pc mcu + 2\<rparr>))"

definition exec_sbrs :: "MSIM_AVR \<Rightarrow> u32 \<Rightarrow> MSIM_AVR" where
  "exec_sbrs mcu0 inst =
    (let rr_addr = (ucast (drop_bit 4 inst AND 0x1F) :: u16);
         bit_n = uchar (inst AND 7);
         r = uchar (drop_bit (unat bit_n) (int_of (dm mcu0 (unat rr_addr))) AND 1)
     in SKIP_CYCLES mcu0 (r \<noteq> 0)
          (if MSIM_AVR_Is32 (int_of (pm mcu0 (unat (pc mcu0 + 2)))) then 2 else 1) (\<lambda>mcu.
          if r \<noteq> 0
          then mcu\<lparr>pc := pc mcu +
                 (if MSIM_AVR_Is32 (int_of (pm mcu (unat (pc mcu + 2)))) then 6 else 4)\<rparr>
          else mcu\<lparr>pc := pc mcu + 2\<rparr>))"

text \<open>
  \<open>exec_eicall\<close>, \<open>exec_eijmp\<close> and \<open>exec_elpm\<close> first test the register pointer; a
  \<open>NULL\<close> pointer (and, for EICALL, a PC narrower than 22 bits) sets \<open>err\<close>, and the
  \<open>else\<close> branch of \<open>if (err == 0)\<close> only stores \<open>AVR_MSIM_TESTFAIL\<close>.
\<close>

definition ext_pointer :: "u8 \<Rightarrow> MSIM_AVR \<Rightarrow> u32" where
  "ext_pointer e mcu =
     (push_bit 16 (int_of e) AND 0xFF0000) OR
     (push_bit 8 (int_of (dm mcu REG_ZH)) AND 0xFF00) OR (int_of (dm mcu REG_ZL) AND 0xFF)"

definition exec_eicall :: "MSIM_AVR \<Rightarrow> MSIM_AVR" where
  "exec_eicall mcu0 =
    (case eind mcu0 of
       None \<Rightarrow> mcu0\<lparr>state := AVR_MSIM_TESTFAIL\<rparr>
     | Some ep \<Rightarrow>
         if pc_bits mcu0 < 22 then mcu0\<lparr>state := AVR_MSIM_TESTFAIL\<rparr>
         else SKIP_CYCLES mcu0 True (if xmega mcu0 \<noteq> 0 then 2 else 3) (\<lambda>mcu.
           let p0 = ext_pointer (dm mcu ep) mcu;
               p = pc mcu + 2;
               mcu = MSIM_AVR_StackPush mcu (ucast (p AND 0xFF));
               mcu = MSIM_AVR_StackPush mcu (ucast (drop_bit 8 p AND 0xFF));
               mcu = MSIM_AVR_StackPush mcu (ucast (drop_bit 16 p AND 0xFF))
           in mcu\<lparr>pc := ucast p0\<rparr>))"

definition exec_eijmp :: "MSIM_AVR \<Rightarrow> MSIM_AVR" where
  "exec_eijmp mcu0 =
    (case eind mcu0 of
       None \<Rightarrow> mcu0\<lparr>state := AVR_MSIM_TESTFAIL\<rparr>
     | Some ep \<Rightarrow>
         SKIP_CYCLES mcu0 True 1 (\<lambda>mcu. mcu\<lparr>pc := ucast (ext_pointer (dm mcu ep) mcu)\<rparr>))"

definition exec_xch :: "MSIM_AVR \<Rightarrow> u32 \<Rightarrow> MSIM_AVR" where
  "exec_xch mcu0 inst = SKIP_CYCLES mcu0 True 1 (\<lambda>mcu.
     let z = (ucast (z_pointer mcu) :: u16);
         v = dm mcu (unat z);
         rd_addr = (ucast (drop_bit 4 inst AND 0x1F) :: u16);
         mcu = dm_set mcu (unat z) (dm mcu (unat rd_addr));
         mcu = dm_set mcu (unat rd_addr) v
     in mcu\<lparr>pc := pc mcu + 2\<rparr>)"

definition exec_ror :: "MSIM_AVR \<Rightarrow> u32 \<Rightarrow> MSIM_AVR" where
  "exec_ror mcu0 inst =
    (let c = MSIM_AVR_ReadSREGFlag mcu0 AVR_SREG_CARRY;
         rd_addr = (ucast (drop_bit 4 inst AND 0x1F) :: u16);
         rd = dm mcu0 (unat rd_addr);
         r = uchar ((drop_bit 1 (int_of rd) AND 0x7F) OR (push_bit 7 (int_of c) AND 0x80));
         mcu = dm_set mcu0 (unat rd_addr) r;
         mcu = mcu\<lparr>pc := pc mcu + 2\<rparr>;
         mcu = MSIM_AVR_UpdateSREGFlag mcu AVR_SREG_CARRY (rd AND 1);
         mcu = MSIM_AVR_UpdateSREGFlag mcu AVR_SREG_ZERO (if r = 0 then 1 else 0);
         mcu = MSIM_AVR_UpdateSREGFlag mcu AVR_SREG_NEGATIVE (drop_bit 7 r AND 1);
         mcu = MSIM_AVR_UpdateSREGFlag mcu AVR_SREG_TWOSCOM_OF
                 (MSIM_AVR_ReadSREGFlag mcu AVR_SREG_NEGATIVE XOR
                  MSIM_AVR_ReadSREGFlag mcu AVR_SREG_CARRY);
         mcu = update_sign mcu
     in MSIM_AVR_UpdateSREGFlag mcu AVR_SREG_HALF_CARRY (drop_bit 3 rd AND 1))"

text \<open>
  In \<open>exec_reti\<close> the pops are operands of one expression; they are taken left to
  right, the high byte first.
\<close>

definition exec_reti :: "MSIM_AVR \<Rightarrow> MSIM_AVR" where
  "exec_reti mcu0 = SKIP_CYCLES mcu0 True (if 16 < pc_bits mcu0 then 4 else 3) (\<lambda>mcu.
     let mcu =
           (if 16 < pc_bits mcu then
              (let (a, mcu) = MSIM_AVR_StackPop mcu;
                   (b, mcu) = MSIM_AVR_StackPop mcu;
                   (c, mcu) = MSIM_AVR_StackPop mcu
               in mcu\<lparr>pc := ucast ((push_bit 16 (int_of a) AND 0xFF0000) OR
                                      (push_bit 8 (int_of b) AND 0xFF00) OR (int_of c AND 0xFF))\<rparr>)
            else
              (let (b, mcu) = MSIM_AVR_StackPop mcu;
                   (c, mcu) = MSIM_AVR_StackPop mcu
               in mcu\<lparr>pc := ucast ((push_bit 8 (int_of b) AND 0xFF00) OR (int_of c AND 0xFF))\<rparr>));
         mcu = (if xmega mcu = 0 then MSIM_AVR_UpdateSREGFlag mcu AVR_SREG_GLOB_INT 1 else mcu)
     in mcu\<lparr>exec_main := 1\<rparr>)"

definition exec_swap :: "MSIM_AVR \<Rightarrow> u32 \<Rightarrow> MSIM_AVR" where
  "exec_swap mcu0 inst =
    (let rd_addr = (ucast (drop_bit 4 inst AND 0x1F) :: u16);
         rdh = uchar (drop_bit 4 (int_of (dm mcu0 (unat rd_addr))) AND 0x0F);
         mcu = dm_set mcu0 (unat rd_addr)
                 (uchar ((push_bit 4 (int_of (dm mcu0 (unat rd_addr))) AND 0xF0) OR int_of rdh))
     in mcu\<lparr>pc := pc mcu + 2\<rparr>)"

definition exec_or :: "MSIM_AVR \<Rightarrow> u32 \<Rightarrow> MSIM_AVR" where
  "exec_or mcu0 inst =
    (let rda = uchar (drop_bit 4 inst AND 0x1F);
         rra = uchar ((drop_bit 5 inst AND 0x10) OR (inst AND 0xF));
         rd = dm mcu0 (unat rda);
         rr = dm mcu0 (unat rra);
         r = rd OR rr;
         mcu = dm_set mcu0 (unat rda) r;
         mcu = mcu\<lparr>pc := pc mcu + 2\<rparr>;
         mcu = MSIM_AVR_UpdateSREGFlag mcu AVR_SREG_ZERO (if r = 0 then 1 else 0);
         mcu = MSIM_AVR_UpdateSREGFlag mcu AVR_SREG_NEGATIVE (drop_bit 7 r AND 1);
         mcu = MSIM_AVR_UpdateSREGFlag mcu AVR_SREG_TWOSCOM_OF 0
     in update_sign mcu)"

definition exec_neg :: "MSIM_AVR \<Rightarrow> u32 \<Rightarrow> MSIM_AVR" where
  "exec_neg mcu0 inst =
    (let rda = uchar (drop_bit 4 inst AND 0x1F);
         rd = dm mcu0 (unat rda);
         r = uchar (NOT (int_of rd) + 1);
         mcu = dm_set mcu0 (unat rda) r;
         mcu = mcu\<lparr>pc := pc mcu + 2\<rparr>;
         mcu = MSIM_AVR_UpdateSREGFlag mcu AVR_SREG_CARRY (if r \<noteq> 0 then 1 else 0);
         mcu = MSIM_AVR_UpdateSREGFlag mcu AVR_SREG_ZERO (if r = 0 then 1 else 0);
         mcu = MSIM_AVR_UpdateSREGFlag mcu AVR_SREG_NEGATIVE (drop_bit 7 r AND 1);
         mcu = MSIM_AVR_UpdateSREGFlag mcu AVR_SREG_TWOSCOM_OF (if r = 0x80 then 1 else 0);
         mcu = update_sign mcu
     in MSIM_AVR_UpdateSREGFlag mcu AVR_SREG_HALF_CARRY
          ((drop_bit 3 r AND 1) OR (drop_bit 3 rd AND 1)))"

definition exec_ser :: "MSIM_AVR \<Rightarrow> u32 \<Rightarrow> MSIM_AVR" where
  "exec_ser mcu0 inst =
    (let rda = uchar ((drop_bit 4 inst AND 0xF) + 16);
         mcu = dm_set mcu0 (unat rda) 0xFF
     in mcu\<lparr>pc := pc mcu + 2\<rparr>)"

definition exec_mul :: "MSIM_AVR \<Rightarrow> u32 \<Rightarrow> MSIM_AVR" where
  "exec_mul mcu0 inst = SKIP_CYCLES mcu0 True 1 (\<lambda>mcu.
     let rda = uchar (drop_bit 4 inst AND 0x1F);
         rra = uchar ((drop_bit 5 inst AND 0x10) OR (inst AND 0xF));
         rd = dm mcu (unat rda);
         rr = dm mcu (unat rra);
         r = int_of rd * int_of rr;
         mcu = dm_set mcu 0 (uchar (r AND 0xFF));
         mcu = dm_set mcu 1 (uchar (drop_bit 8 r AND 0xFF));
         mcu = mcu\<lparr>pc := pc mcu + 2\<rparr>;
         mcu = MSIM_AVR_UpdateSREGFlag mcu AVR_SREG_CARRY (uchar (drop_bit 15 r AND 1))
     in MSIM_AVR_UpdateSREGFlag mcu AVR_SREG_ZERO (if r = 0 then 1 else 0))"

text \<open>
  \<open>exec_muls\<close> and \<open>exec_mulsu\<close> end alike: the product \<open>r\<close> is a \<open>signed int\<close>, its
  right shifts are arithmetic.
\<close>

definition mul_store :: "MSIM_AVR \<Rightarrow> u32 \<Rightarrow> MSIM_AVR" where
  "mul_store mcu0 r =
    (let mcu = dm_set mcu0 0 (uchar (r AND 0xFF));
         mcu = dm_set mcu 1 (uchar (signed_drop_bit 8 r AND 0xFF));
         mcu = mcu\<lparr>pc := pc mcu + 2\<rparr>;
         mcu = MSIM_AVR_UpdateSREGFlag mcu AVR_SREG_CARRY (uchar (signed_drop_bit 15 r AND 1))
     in MSIM_AVR_UpdateSREGFlag mcu AVR_SREG_ZERO (if r = 0 then 1 else 0))"

definition exec_muls :: "MSIM_AVR \<Rightarrow> u32 \<Rightarrow> MSIM_AVR" where
  "exec_muls mcu0 inst = SKIP_CYCLES mcu0 True 1 (\<lambda>mcu.
     let rda = uchar ((drop_bit 4 inst AND 0xF) + 16);
         rra = uchar ((inst AND 0xF) + 16);
         rd = dm mcu (unat rda);
         rr = dm mcu (unat rra);
         r = (scast rd :: u32) * (scast rr :: u32)
     in mul_store mcu r)"

definition exec_mulsu :: "MSIM_AVR \<Rightarrow> u32 \<Rightarrow> MSIM_AVR" where
  "exec_mulsu mcu0 inst = SKIP_CYCLES mcu0 True 1 (\<lambda>mcu.
     let rda = uchar ((drop_bit 4 inst AND 0x7) + 16);
         rra = uchar ((inst AND 0x7) + 16);
         rd = dm mcu (unat rda);
         rr = dm mcu (unat rra);
         r = (scast rd :: u32) * int_of rr
     in mul_store mcu r)"

definition exec_elpm :: "MSIM_AVR \<Rightarrow> u32 \<Rightarrow> MSIM_AVR" where
  "exec_elpm mcu0 inst =
    (case rampz mcu0 of
       None \<Rightarrow> mcu0\<lparr>state := AVR_MSIM_TESTFAIL\<rparr>
     | Some rz \<Rightarrow>
         SKIP_CYCLES mcu0 True 2 (\<lambda>mcu.
           let z = (ucast (ext_pointer (dm mcu rz) mcu) :: u64);
               rda = uchar (drop_bit 4 inst AND 0x1F);
               mcu =
                 (if inst = 0x95D8 then dm_set mcu 0 (pm mcu (unat z))
                  else if inst AND 0xFE0F = 0x9006 then dm_set mcu (unat rda) (pm mcu (unat z))
                  else if inst AND 0xFE0F = 0x9007 then
                    (let mcu = dm_set mcu (unat rda) (pm mcu (unat z));
                         z = z + 1;
                         mcu = dm_set mcu rz (ucast (drop_bit 16 z AND 0xFF));
                         mcu = dm_set mcu REG_ZH (ucast (drop_bit 8 z AND 0xFF))
                     in dm_set mcu REG_ZL (ucast (z AND 0xFF)))
                  else mcu)
           in mcu\<lparr>pc := pc mcu + 2\<rparr>))"

text \<open>\<open>memset\<close> and \<open>memcpy\<close> over \<open>n\<close> bytes starting at index \<open>z\<close>.\<close>

definition mem_fill :: "(nat \<Rightarrow> u8) \<Rightarrow> nat \<Rightarrow> u8 \<Rightarrow> nat \<Rightarrow> (nat \<Rightarrow> u8)" where
  "mem_fill m z v n = (\<lambda>a. if z \<le> a \<and> a < z + n then v else m a)"

definition mem_copy :: "(nat \<Rightarrow> u8) \<Rightarrow> nat \<Rightarrow> (nat \<Rightarrow> u8) \<Rightarrow> nat \<Rightarrow> nat \<Rightarrow> (nat \<Rightarrow> u8)" where
  "mem_copy m z src off n = (\<lambda>a. if z \<le> a \<and> a < z + n then src (off + (a - z)) else m a)"

definition exec_spm :: "MSIM_AVR \<Rightarrow> u32 \<Rightarrow> MSIM_AVR" where
  "exec_spm mcu0 inst =
    (case spmcsr mcu0 of
       None \<Rightarrow> mcu0\<lparr>state := AVR_MSIM_TESTFAIL\<rparr>
     | Some sp \<Rightarrow>
         (let ez = (case rampz mcu0 of Some rz \<Rightarrow> dm mcu0 rz | None \<Rightarrow> 0);
              z = (ucast (ext_pointer ez mcu0) :: u64);
              c = dm mcu0 sp AND 0x7;
              mcu =
                (if c = 0x3
                 then mcu0\<lparr>pm := mem_fill (pm mcu0) (unat z) 0xFF (unat (spm_pagesize mcu0))\<rparr>
                 else if c = 0x1
                 then mcu0\<lparr>pmp := mem_copy (pmp mcu0) (unat z) (dm mcu0) 0 2\<rparr>
                 else if c = 0x5
                 then mcu0\<lparr>pm := mem_copy (pm mcu0) (unat z) (pmp mcu0) 0 (unat (spm_pagesize mcu0))\<rparr>
                 else mcu0);
              mcu = mcu\<lparr>pc := pc mcu + 2\<rparr>
          in if inst = 0x95F8 then
               (let z = z + 2;
                    mcu = (case rampz mcu of
                             Some rz \<Rightarrow> dm_set mcu rz (ucast (drop_bit 16 z AND 0xFF))
                           | None \<Rightarrow> mcu);
                    mcu = dm_set mcu REG_ZH (ucast (drop_bit 8 z AND 0xFF))
                in dm_set mcu REG_ZL (ucast (z AND 0xFF)))
             else mcu))"

section \<open>The decoder\<close>

text \<open>
  \<open>decode_inst\<close> returns 0 after calling an executor and -1 for a word no pattern
  matches.  The outer \<open>switch (inst & 0xF000)\<close> is split into one definition per case
  that has inner structure; the cases are tried in the order of the source.
\<close>

definition decode_0000 :: "MSIM_AVR \<Rightarrow> u32 \<Rightarrow> int \<times> MSIM_AVR" where
  "decode_0000 mcu inst =
    (if inst AND 0xFF00 = 0x0200 then (0, exec_muls mcu inst)
     else if inst AND 0xFF88 = 0x0300 then (0, exec_mulsu mcu inst)
     else if inst AND 0xFF88 = 0x308 then (0, exec_fmul mcu inst)
     else if inst AND 0xFF88 = 0x380 then (0, exec_fmuls mcu inst)
     else if inst AND 0xFF88 = 0x388 then (0, exec_fmulsu mcu inst)
     else if inst = 0x0000 then (0, mcu\<lparr>pc := pc mcu + 2\<rparr>)
     else if inst AND 0xFC00 = 0x0400 then (0, exec_cpc mcu inst)
     else if inst AND 0xFC00 = 0x0800 then (0, exec_sbc mcu inst)
     else if inst AND 0xFC00 = 0x0C00 then (0, exec_add_lsl mcu inst)
     else if inst AND 0xFF00 = 0x0100 then (0, exec_movw mcu inst)
     else (-1, mcu))"

definition decode_1000 :: "MSIM_AVR \<Rightarrow> u32 \<Rightarrow> int \<times> MSIM_AVR" where
  "decode_1000 mcu inst =
    (if inst AND 0xFC00 = 0x1000 then (0, exec_cpse mcu inst)
     else if inst AND 0xFC00 = 0x1400 then (0, exec_cp mcu inst)
     else if inst AND 0xFC00 = 0x1800 then (0, exec_sub mcu inst)
     else if inst AND 0xFC00 = 0x1C00 then (0, exec_adc_rol mcu inst)
     else (-1, mcu))"

definition decode_2000 :: "MSIM_AVR \<Rightarrow> u32 \<Rightarrow> int \<times> MSIM_AVR" where
  "decode_2000 mcu inst =
    (if inst AND 0xFC00 = 0x2000 then (0, exec_and mcu inst)
     else if inst AND 0xFC00 = 0x2400 then (0, exec_eor_clr mcu inst)
     else if inst AND 0xFC00 = 0x2800 then (0, exec_or mcu inst)
     else if inst AND 0xFC00 = 0x2C00 then (0, exec_mov mcu inst)
     else (-1, mcu))"

definition decode_8000 :: "MSIM_AVR \<Rightarrow> u32 \<Rightarrow> int \<times> MSIM_AVR" where
  "decode_8000 mcu inst =
    (if inst AND 0xD208 = 0x8000 then (0, exec_ld_zdisp mcu inst)
     else if inst AND 0xD208 = 0x8008 then (0, exec_ld_ydisp mcu inst)
     else if inst AND 0xD208 = 0x8200 then (0, exec_st_zdisp mcu inst)
     else if inst AND 0xD208 = 0x8208 then (0, exec_st_ydisp mcu inst)
     else if inst AND 0xFE0F = 0x8000 then (0, exec_ld_z mcu inst)
     else if inst AND 0xFE0F = 0x8008 then (0, exec_ld_y mcu inst)
     else if inst AND 0xFE0F = 0x8200 then (0, exec_st_z mcu inst)
     else if inst AND 0xFE0F = 0x8208 then (0, exec_st_y mcu inst)
     else (-1, mcu))"

text \<open>The innermost \<open>switch (inst & 0xFF00)\<close> of case \<open>0x9000\<close>.\<close>

definition decode_9000_ff00 :: "MSIM_AVR \<Rightarrow> u32 \<Rightarrow> int \<times> MSIM_AVR" where
  "decode_9000_ff00 mcu inst =
    (if inst AND 0xFF00 = 0x9700 then (0, exec_sbiw mcu inst)
     else if inst AND 0xFF00 = 0x9800 then (0, exec_sbi_cbi mcu inst 0)
     else if inst AND 0xFF00 = 0x9900 then (0, exec_sbis_sbic mcu inst 0)
     else if inst AND 0xFF00 = 0x9A00 then (0, exec_sbi_cbi mcu inst 1)
     else if inst AND 0xFF00 = 0x9B00 then (0, exec_sbis_sbic mcu inst 1)
     else (-1, mcu))"

text \<open>The \<open>switch (inst & 0xFE0F)\<close> of case \<open>0x9000\<close>.\<close>

definition decode_9000_fe0f :: "MSIM_AVR \<Rightarrow> u32 \<Rightarrow> int \<times> MSIM_AVR" where
  "decode_9000_fe0f mcu inst =
    (let i = inst AND 0xFE0F
     in if i = 0x9000 then (0, exec_lds mcu inst)
        else if i = 0x9001 \<or> i = 0x9002 then (0, exec_ld_z mcu inst)
        else if i = 0x9004 \<or> i = 0x9005 then (0, exec_lpm mcu inst)
        else if i = 0x9006 \<or> i = 0x9007 then (0, exec_elpm mcu inst)
        else if i = 0x9009 \<or> i = 0x900A then (0, exec_ld_y mcu inst)
        else if i = 0x900C \<or> i = 0x900D \<or> i = 0x900E then (0, exec_ld_x mcu inst)
        else if i = 0x900F then (0, exec_push_pop mcu inst 0)
        else if i = 0x9200 then (0, exec_sts mcu inst)
        else if i = 0x9201 \<or> i = 0x9202 then (0, exec_st_z mcu inst)
        else if i = 0x9204 then (0, exec_xch mcu inst)
        else if i = 0x9205 then (0, exec_las mcu inst)
        else if i = 0x9206 then (0, exec_lac mcu inst)
        else if i = 0x9207 then (0, exec_lat mcu inst)
        else if i = 0x9209 \<or> i = 0x920A then (0, exec_st_y mcu inst)
        else if i = 0x920C \<or> i = 0x920D \<or> i = 0x920E then (0, exec_st_x mcu inst)
        else if i = 0x920F then (0, exec_push_pop mcu inst 1)
        else if i = 0x9400 then (0, exec_com mcu inst)
        else if i = 0x9401 then (0, exec_neg mcu inst)
        else if i = 0x9402 then (0, exec_swap mcu inst)
        else if i = 0x9403 then (0, exec_inc mcu inst)
        else if i = 0x9405 then (0, exec_asr mcu inst)
        else if i = 0x9406 then (0, exec_lsr mcu inst)
        else if i = 0x9407 then (0, exec_ror mcu inst)
        else if i = 0x940A then (0, exec_dec mcu inst)
        else decode_9000_ff00 mcu inst)"

text \<open>The \<open>switch (inst)\<close> of case \<open>0x9000\<close>, on the whole word.\<close>

definition decode_9000_inst :: "MSIM_AVR \<Rightarrow> u32 \<Rightarrow> int \<times> MSIM_AVR" where
  "decode_9000_inst mcu inst =
    (if inst = 0x9408 then (0, exec_sec mcu)
     else if inst = 0x9409 then (0, exec_ijmp mcu)
     else if inst = 0x9418 then (0, exec_sez mcu)
     else if inst = 0x9419 then (0, exec_eijmp mcu)
     else if inst = 0x9428 then (0, exec_sen mcu)
     else if inst = 0x9438 then (0, exec_sev mcu)
     else if inst = 0x9448 then (0, exec_ses mcu)
     else if inst = 0x9458 then (0, exec_seh mcu)
     else if inst = 0x9468 then (0, exec_set mcu)
     else if inst = 0x9478 then (0, exec_sei mcu)
     else if inst = 0x9488 then (0, exec_clc mcu)
     else if inst = 0x9498 then (0, exec_clz mcu)
     else if inst = 0x94A8 then (0, exec_cln mcu)
     else if inst = 0x94B8 then (0, exec_clv mcu)
     else if inst = 0x94C8 then (0, exec_cls mcu)
     else if inst = 0x94D8 then (0, exec_clh mcu)
     else if inst = 0x94E8 then (0, exec_clt mcu)
     else if inst = 0x94F8 then (0, exec_cli mcu)
     else if inst = 0x9508 then (0, exec_ret mcu)
     else if inst = 0x9509 then (0, exec_icall mcu)
     else if inst = 0x9518 then (0, exec_reti mcu)
     else if inst = 0x9519 then (0, exec_eicall mcu)
     else if inst = 0x9598 then (0, exec_break mcu)
     else if inst = 0x95C8 then (0, exec_lpm mcu inst)
     else if inst = 0x95D8 then (0, exec_elpm mcu inst)
     else if inst = 0x95E8 \<or> inst = 0x95F8 then (0, exec_spm mcu inst)
     else decode_9000_fe0f mcu inst)"

definition decode_9000 :: "MSIM_AVR \<Rightarrow> u32 \<Rightarrow> int \<times> MSIM_AVR" where
  "decode_9000 mcu inst =
    (if inst AND 0xFF00 = 0x9600 then (0, exec_adiw mcu inst)
     else if inst AND 0xFF8F = 0x9488 then (0, exec_bclr mcu inst)
     else if inst AND 0xFF8F = 0x9408 then (0, exec_bset mcu inst)
     else if inst AND 0xFE0E = 0x940C then (0, exec_jmp mcu inst)
     else if inst AND 0xFE0E = 0x940E then (0, exec_call mcu inst)
     else if inst AND 0xFC00 = 0x9C00 then (0, exec_mul mcu inst)
     else decode_9000_inst mcu inst)"

definition decode_A000 :: "MSIM_AVR \<Rightarrow> u32 \<Rightarrow> int \<times> MSIM_AVR" where
  "decode_A000 mcu inst =
    (if inst AND 0xF800 = 0xA000 then (0, exec_lds16 mcu inst)
     else if inst AND 0xD208 = 0x8000 then (0, exec_ld_zdisp mcu inst)
     else if inst AND 0xD208 = 0x8008 then (0, exec_ld_ydisp mcu inst)
     else if inst AND 0xD208 = 0x8200 then (0, exec_st_zdisp mcu inst)
     else if inst AND 0xD208 = 0x8208 then (0, exec_st_ydisp mcu inst)
     else (-1, mcu))"

definition decode_F000 :: "MSIM_AVR \<Rightarrow> u32 \<Rightarrow> int \<times> MSIM_AVR" where
  "decode_F000 mcu inst =
    (if inst AND 0xFE08 = 0xF800 then (0, exec_bld mcu inst)
     else if inst AND 0xFE08 = 0xFA00 then (0, exec_bst mcu inst)
     else if inst AND 0xFE08 = 0xFC00 then (0, exec_sbrc mcu inst)
     else if inst AND 0xFE08 = 0xFE00 then (0, exec_sbrs mcu inst)
     else if inst AND 0xFC00 = 0xF400 then (0, exec_brbc mcu inst)
     else if inst AND 0xFC00 = 0xF000 then (0, exec_brbs mcu inst)
     else (let i = inst AND 0xFC07
       in if i = 0xF000 then (0, exec_brcs_brlo mcu inst)
          else if i = 0xF001 then (0, exec_breq mcu inst)
          else if i = 0xF002 then (0, exec_brmi mcu inst)
          else if i = 0xF003 then (0, exec_brvs mcu inst)
          else if i = 0xF004 then (0, exec_brlt mcu inst)
          else if i = 0xF005 then (0, exec_brhs mcu inst)
          else if i = 0xF006 then (0, exec_brts mcu inst)
          else if i = 0xF007 then (0, exec_brie mcu inst)
          else if i = 0xF400 then (0, exec_brcc_brsh mcu inst)
          else if i = 0xF401 then (0, exec_brne mcu inst)
          else if i = 0xF402 then (0, exec_brpl mcu inst)
          else if i = 0xF403 then (0, exec_brvc mcu inst)
          else if i = 0xF404 then (0, exec_brge mcu inst)
          else if i = 0xF405 then (0, exec_brhc mcu inst)
          else if i = 0xF406 then (0, exec_brtc mcu inst)
          else if i = 0xF407 then (0, exec_brid mcu inst)
          else (-1, mcu)))"

definition decode_inst :: "MSIM_AVR \<Rightarrow> u32 \<Rightarrow> int \<times> MSIM_AVR" where
  "decode_inst mcu inst =
    (let h = inst AND 0xF000
     in if h = 0x0000 then decode_0000 mcu inst
        else if h = 0x1000 then decode_1000 mcu inst
        else if h = 0x2000 then decode_2000 mcu inst
        else if h = 0x3000 then (0, exec_cpi mcu inst)
        else if h = 0x4000 then (0, exec_sbci mcu inst)
        else if h = 0x5000 then (0, exec_subi mcu inst)
        else if h = 0x6000 then (0, exec_ori_sbr mcu inst)
        else if h = 0x7000 then (0, exec_andi_cbr mcu inst)
        else if h = 0x8000 then decode_8000 mcu inst
        else if h = 0x9000 then decode_9000 mcu inst
        else if h = 0xA000 then decode_A000 mcu inst
        else if h = 0xB000 then
          (0, exec_in_out mcu inst (uchar (drop_bit 4 (inst AND 0x01F0)))
                (uchar ((inst AND 0x0F) OR drop_bit 5 (inst AND 0x0600))))
        else if h = 0xC000 then (0, exec_rjmp mcu inst)
        else if h = 0xD000 then (0, exec_rcall mcu inst)
        else if h = 0xE000 then
          (if inst AND 0xFF0F = 0xEF0F then (0, exec_ser mcu inst) else (0, exec_ldi mcu inst))
        else if h = 0xF000 then decode_F000 mcu inst
        else (-1, mcu))"

text \<open>
  \<open>MSIM_AVR_Step\<close> fetches the little-endian word at \<open>pc\<close> from the program memory,
  or once from the match-point memory when \<open>read_from_mpm\<close> is set, and decodes it.
\<close>

definition fetch_word :: "(nat \<Rightarrow> u8) \<Rightarrow> u64 \<Rightarrow> u16" where
  "fetch_word m p = ucast (int_of (m (unat p)) OR push_bit 8 (int_of (m (unat (p + 1)))))"

definition MSIM_AVR_Step :: "MSIM_AVR \<Rightarrow> int \<times> MSIM_AVR" where
  "MSIM_AVR_Step mcu0 =
    (let (inst, mcu) =
           (if read_from_mpm mcu0 = 0 then (fetch_word (pm mcu0) (pc mcu0), mcu0)
            else (fetch_word (mpm mcu0) (pc mcu0), mcu0\<lparr>read_from_mpm := 0\<rparr>));
         (rc, mcu) = decode_inst mcu (ucast inst)
     in if rc \<noteq> 0 then (-1, mcu) else (0, mcu))"

section \<open>Timer/Counter0 of the ATmega328P (avr_m328p.c)\<close>

text \<open>
  The register addresses and bit numbers are macros of the device header, which is not
  among the sources; the timer takes them as a parameter.
\<close>

record m328p_regs =
  TCCR0A :: nat
  TCCR0B :: nat
  TCNT0 :: nat
  OCR0A :: nat
  OCR0B :: nat
  TIFR0 :: nat
  PORTD :: nat
  PIND :: nat
  DDRB :: nat
  OCF0A :: nat
  PD4 :: nat
  PD5 :: nat
  PD6 :: nat
  TOV0 :: nat
  WGM00 :: nat
  WGM01 :: nat
  WGM02 :: nat
  COM0A0 :: nat
  COM0A1 :: nat
  COM0B0 :: nat
  COM0B1 :: nat

text \<open>
  The variables at program scope: the file-level \<open>init_portd\<close>, \<open>init_pind\<close>,
  \<open>ocr0a_buf\<close>, \<open>ocr0b_buf\<close>, \<open>missed_cm\<close> and the \<open>static\<close> locals \<open>tc0_presc\<close>,
  \<open>tc0_ticks\<close>, \<open>old_wgm0\<close> of \<open>tick_timer0\<close>.  There is one copy of them for the
  whole program, whatever the number of \<open>struct MSIM_AVR\<close> instances.
\<close>

record m328p_statics =
  init_portd :: u8
  init_pind :: u8
  ocr0a_buf :: u8
  ocr0b_buf :: u8
  missed_cm :: u8
  tc0_presc :: u32
  tc0_ticks :: u32
  old_wgm0 :: u8

text \<open>C gives every one of them the initial value 0.\<close>

definition statics_init :: m328p_statics where
  "statics_init = \<lparr>init_portd = 0, init_pind = 0, ocr0a_buf = 0, ocr0b_buf = 0, missed_cm = 0,
     tc0_presc = 0, tc0_ticks = 0, old_wgm0 = 0\<rparr>"

definition IS_SET :: "u8 \<Rightarrow> nat \<Rightarrow> u64" where
  "IS_SET byte b = drop_bit b (ucast byte AND push_bit b 1)"

definition IS_RISE :: "u8 \<Rightarrow> u8 \<Rightarrow> nat \<Rightarrow> u32" where
  "IS_RISE init val b =
     (if drop_bit b (int_of init) AND 1 = 0 then 1 else 0) AND (drop_bit b (int_of val) AND 1)"

definition IS_FALL :: "u8 \<Rightarrow> u8 \<Rightarrow> nat \<Rightarrow> u32" where
  "IS_FALL init val b =
     (drop_bit b (int_of init) AND 1) AND (if drop_bit b (int_of val) AND 1 = 0 then 1 else 0)"

definition CLEAR :: "u8 \<Rightarrow> nat \<Rightarrow> u8" where
  "CLEAR byte b = uchar (int_of byte AND NOT (push_bit b 1))"

definition SET :: "u8 \<Rightarrow> nat \<Rightarrow> u8" where
  "SET byte b = uchar (int_of byte OR push_bit b 1)"

definition NOT_CONNECTED :: u8 where "NOT_CONNECTED = 0xFF"
definition A_CHAN :: u8 where "A_CHAN = 79"
definition B_CHAN :: u8 where "B_CHAN = 80"

text \<open>
  The counting step that \<open>tick_timer0\<close> repeats in three places: wrap from \<open>0xFF\<close> to
  0 and raise TOV0 in TIFR0, or count up.
\<close>

definition count_up :: "m328p_regs \<Rightarrow> MSIM_AVR \<Rightarrow> MSIM_AVR" where
  "count_up io mcu =
    (if dm mcu (TCNT0 io) = 0xFF
     then (let mcu = dm_set mcu (TCNT0 io) 0
           in dm_set mcu (TIFR0 io) (dm mcu (TIFR0 io) OR uchar (push_bit (TOV0 io) 1)))
     else dm_set mcu (TCNT0 io) (dm mcu (TCNT0 io) + 1))"

text \<open>
  The text of \<open>timer0_normal\<close> and \<open>timer1_oc1_nonpwm\<close> has lost characters in the
  source (\<open>DM(TIFR0) = DM(1TOV0)\<close>, \<open>case 1  Toggle pin\<close>), and the call passes
  \<open>tc0_ticks\<close> where the prototype has a pointer \<open>ticks\<close>.  The model reads \<open>ticks\<close>
  as the address of \<open>tc0_ticks\<close>, the first assignment as the overflow step of
  \<open>tick_timer0\<close>, and the \<open>case\<close> labels as written without their colons; the other
  two assignments to TIFR0 are taken as they stand.
\<close>

definition timer1_oc1_nonpwm :: "m328p_regs \<Rightarrow> MSIM_AVR \<Rightarrow> u8 \<Rightarrow> u8 \<Rightarrow> u8 \<Rightarrow> MSIM_AVR" where
  "timer1_oc1_nonpwm io mcu com0a com0b chan =
    (let (pin, com) =
           (if chan = A_CHAN then (PD6 io, com0a)
            else if chan = B_CHAN then (PD5 io, com0b)
            else (0, NOT_CONNECTED));
         com = (if com \<noteq> NOT_CONNECTED \<and> IS_SET (dm mcu (DDRB io)) pin = 0
                then NOT_CONNECTED else com)
     in if com \<noteq> NOT_CONNECTED then
          (if com = 1 then
             (if IS_SET (dm mcu (PORTD io)) pin = 1
              then dm_set mcu (PORTD io) (CLEAR (dm mcu (PORTD io)) pin)
              else dm_set mcu (PORTD io) (SET (dm mcu (PORTD io)) pin))
           else if com = 2 then dm_set mcu (PORTD io) (CLEAR (dm mcu (PORTD io)) pin)
           else if com = 3 then dm_set mcu (PORTD io) (SET (dm mcu (PORTD io)) pin)
           else mcu)
        else mcu)"

definition timer0_normal ::
  "m328p_regs \<Rightarrow> m328p_statics \<times> MSIM_AVR \<Rightarrow> u32 \<Rightarrow> u8 \<Rightarrow> u8 \<Rightarrow> u8 \<Rightarrow> m328p_statics \<times> MSIM_AVR" where
  "timer0_normal io sm presc wgm0 com0a com0b =
    (let (st, mcu) = sm
     in if tc0_ticks st < presc - 1 then (st\<lparr>tc0_ticks := tc0_ticks st + 1\<rparr>, mcu)
        else if presc - 1 < tc0_ticks st then (st, mcu)
        else
          (let mcu =
                (if dm mcu (TCNT0 io) = 0xFF then
                   (let mcu = dm_set mcu (TCNT0 io) 0
                    in dm_set mcu (TIFR0 io) (dm mcu (TIFR0 io) OR uchar (push_bit (TOV0 io) 1)))
                 else if dm mcu (TCNT0 io) = dm mcu (OCR0A io) then
                   (let mcu = dm_set mcu (TIFR0 io) (dm mcu (OCF0A io));
                        mcu = timer1_oc1_nonpwm io mcu com0a com0b A_CHAN
                    in dm_set mcu (TCNT0 io) (dm mcu (TCNT0 io) + 1))
                 else if dm mcu (TCNT0 io) = dm mcu (OCR0B io) then
                   (let mcu = dm_set mcu (TIFR0 io) (dm mcu (OCR0B io));
                        mcu = timer1_oc1_nonpwm io mcu com0a com0b B_CHAN
                    in dm_set mcu (TCNT0 io) (dm mcu (TCNT0 io) + 1))
                 else dm_set mcu (TCNT0 io) (dm mcu (TCNT0 io) + 1))
           in (st\<lparr>tc0_ticks := 0\<rparr>, mcu)))"

text \<open>
  \<open>tick_timer0\<close> works on the statics and on one instance.  Nothing in the file
  assigns \<open>init_portd\<close> or \<open>init_pind\<close>.
\<close>

definition tick_internal ::
  "m328p_regs \<Rightarrow> m328p_statics \<times> MSIM_AVR \<Rightarrow> u32 \<Rightarrow> u8 \<Rightarrow> u8 \<Rightarrow> u8 \<Rightarrow> m328p_statics \<times> MSIM_AVR" where
  "tick_internal io sm presc wgm0 com0a com0b =
    (let (st, mcu) = sm;
         st = (if presc \<noteq> tc0_presc st then
                 (let st = (if tc0_presc st = 0 \<and> dm mcu (OCR0A io) < dm mcu (TCNT0 io)
                            then st\<lparr>missed_cm := 1\<rparr> else st)
                  in st\<lparr>tc0_presc := presc, tc0_ticks := 0\<rparr>)
               else st)
     in if tc0_ticks st = tc0_presc st - 1 then (st\<lparr>tc0_ticks := 0\<rparr>, count_up io mcu)
        else if wgm0 = 0 then timer0_normal io (st, mcu) (tc0_presc st) wgm0 com0a com0b
        else if wgm0 = 1 \<or> wgm0 = 2 \<or> wgm0 = 3 then (st, mcu)
        else
          (let st = (if wgm0 \<noteq> old_wgm0 st then st\<lparr>old_wgm0 := wgm0\<rparr> else st)
           in (st\<lparr>tc0_presc := 0, tc0_ticks := 0\<rparr>, mcu)))"

definition tick_timer0 ::
  "m328p_regs \<Rightarrow> m328p_statics \<times> MSIM_AVR \<Rightarrow> m328p_statics \<times> MSIM_AVR" where
  "tick_timer0 io sm =
    (let (st, mcu) = sm;
         cs0 = dm mcu (TCCR0B io) AND 0x7;
         wgm0 = uchar ((drop_bit (WGM00 io) (int_of (dm mcu (TCCR0A io))) AND 1) OR
                       (drop_bit (WGM01 io) (int_of (dm mcu (TCCR0A io))) AND 2) OR
                       (drop_bit (WGM02 io) (int_of (dm mcu (TCCR0B io))) AND 8));
         com0a = uchar ((drop_bit (COM0A0 io) (int_of (dm mcu (TCCR0A io))) AND 6) OR
                        (drop_bit (COM0A1 io) (int_of (dm mcu (TCCR0A io))) AND 7));
         com0b = uchar ((drop_bit (COM0B0 io) (int_of (dm mcu (TCCR0A io))) AND 4) OR
                        (drop_bit (COM0B1 io) (int_of (dm mcu (TCCR0A io))) AND 5))
     in if cs0 = 0x1 then tick_internal io (st, mcu) 1 wgm0 com0a com0b
        else if cs0 = 0x2 then tick_internal io (st, mcu) 8 wgm0 com0a com0b
        else if cs0 = 0x3 then tick_internal io (st, mcu) 64 wgm0 com0a com0b
        else if cs0 = 0x4 then tick_internal io (st, mcu) 256 wgm0 com0a com0b
        else if cs0 = 0x5 then tick_internal io (st, mcu) 1024 wgm0 com0a com0b
        else if cs0 = 0x6 then
          (let mcu = (if IS_FALL (init_portd st) (dm mcu (PORTD io)) (PD4 io) \<noteq> 0 \<or>
                         IS_FALL (init_pind st) (dm mcu (PIND io)) (PD4 io) \<noteq> 0
                      then count_up io mcu else mcu)
           in (st\<lparr>tc0_presc := 0, tc0_ticks := 0\<rparr>, mcu))
        else if cs0 = 0x7 then
          (let mcu = (if IS_RISE (init_portd st) (dm mcu (PORTD io)) (PD4 io) \<noteq> 0 \<or>
                         IS_RISE (init_pind st) (dm mcu (PIND io)) (PD4 io) \<noteq> 0
                      then count_up io mcu else mcu)
           in (st\<lparr>tc0_presc := 0, tc0_ticks := 0\<rparr>, mcu))
        else (st\<lparr>tc0_presc := 0, tc0_ticks := 0\<rparr>, mcu))"

definition MSIM_M328PTickPerf ::
  "m328p_regs \<Rightarrow> m328p_statics \<times> MSIM_AVR \<Rightarrow> int \<times> m328p_statics \<times> MSIM_AVR" where
  "MSIM_M328PTickPerf io sm = (0, tick_timer0 io sm)"

section \<open>Concrete devices for evaluation\<close>

text \<open>
  An ATmega328P-like instance after reset: 16-bit PC, no EIND and no RAMPZ, SREG at
  \<open>0x5F\<close>, SPH:SPL at \<open>0x5E:0x5D\<close>, all memories zero.
\<close>

definition m328p_reset :: MSIM_AVR where
  "m328p_reset = \<lparr>xmega = 0, reduced_core = 0, ramstart = 0x100, ramend = 0x8FF,
     spm_pagesize = 128, spmcsr = Some 0x57, state = AVR_RUNNING, pc_bits = 16, pc = 0,
     exec_main = 0, ic_left = 0, in_mcinst = 0, sreg = 0x5F, sph = 0x5E, spl = 0x5D,
     eind = None, rampz = None, pm = (\<lambda>_. 0), pmp = (\<lambda>_. 0), dm = (\<lambda>_. 0),
     mpm = (\<lambda>_. 0), read_from_mpm = 0, sfr_off = 0x20\<rparr>"

text \<open>The Timer/Counter0 register map of the ATmega328P data sheet.\<close>

definition m328p_io :: m328p_regs where
  "m328p_io = \<lparr>TCCR0A = 0x44, TCCR0B = 0x45, TCNT0 = 0x46, OCR0A = 0x47, OCR0B = 0x48,
     TIFR0 = 0x35, PORTD = 0x2B, PIND = 0x29, DDRB = 0x24, OCF0A = 1, PD4 = 4, PD5 = 5,
     PD6 = 6, TOV0 = 0, WGM00 = 0, WGM01 = 1, WGM02 = 3, COM0A0 = 6, COM0A1 = 7,
     COM0B0 = 4, COM0B1 = 5\<rparr>"

text \<open>Loading a program and setting a cell of the data memory.\<close>

fun load_bytes :: "(nat \<Rightarrow> u8) \<Rightarrow> nat \<Rightarrow> u8 list \<Rightarrow> (nat \<Rightarrow> u8)" where
  "load_bytes m a [] = m"
| "load_bytes m a (b # bs) = load_bytes (m(a := b)) (Suc a) bs"

definition with_pm :: "u8 list \<Rightarrow> MSIM_AVR \<Rightarrow> MSIM_AVR" where
  "with_pm bs mcu = mcu\<lparr>pm := load_bytes (pm mcu) 0 bs\<rparr>"

text \<open>\<open>steps n\<close> calls \<open>MSIM_AVR_Step\<close> \<open>n\<close> times and keeps the state.\<close>

fun steps :: "nat \<Rightarrow> MSIM_AVR \<Rightarrow> MSIM_AVR" where
  "steps 0 mcu = mcu"
| "steps (Suc n) mcu = steps n (snd (MSIM_AVR_Step mcu))"

text \<open>The instruction word \<open>MSIM_AVR_Step\<close> fetches in a given state.\<close>

definition fetched :: "MSIM_AVR \<Rightarrow> u32" where
  "fetched mcu =
     ucast (fetch_word (if read_from_mpm mcu = 0 then pm mcu else mpm mcu) (pc mcu))"

text \<open>
  Two properties of a decoder result: \<open>rejects_clean\<close> says that a result other
  than 0 is -1 together with the state the decoder was given; \<open>same_rc\<close> compares the
  return codes of two results.
\<close>

definition rejects_clean :: "MSIM_AVR \<Rightarrow> int \<times> MSIM_AVR \<Rightarrow> bool" where
  "rejects_clean mcu r \<longleftrightarrow> (fst r = 0 \<or> r = (-1, mcu))"

definition same_rc :: "int \<times> MSIM_AVR \<Rightarrow> int \<times> MSIM_AVR \<Rightarrow> bool" where
  "same_rc a b \<longleftrightarrow> fst a = fst b"

text \<open>Inputs for the witnesses of the decoder theorems.\<close>

definition unknown_state :: MSIM_AVR where
  "unknown_state = with_pm [0x03, 0x90] (dm_set m328p_reset 16 0x5A)"

definition movw_state :: MSIM_AVR where
  "movw_state = dm_set (dm_set m328p_reset 16 0x34) 17 0x12"

text \<open>
  SBRS R16,0 at address 0 with bit 0 of R16 set, followed by CALL (\<open>0x940E\<close>, a 32-bit
  instruction) at address 2.
\<close>

definition sbrs_call_state :: MSIM_AVR where
  "sbrs_call_state =
     with_pm [0x00, 0xFF, 0x0E, 0x94, 0x10, 0x00] (dm_set m328p_reset 16 0x01)"

text \<open>ADIW R24,1 (\<open>0x9601\<close>) with R25:R24 = \<open>0xFFFF\<close>.\<close>

definition adiw_state :: MSIM_AVR where
  "adiw_state = with_pm [0x01, 0x96] (dm_set (dm_set m328p_reset 24 0xFF) 25 0xFF)"

text \<open>CPC R0,R1 (\<open>0x0401\<close>) with R0 = 0, R1 = \<open>0xFF\<close>, C = 1 and Z = 1.\<close>

definition cpc_state :: MSIM_AVR where
  "cpc_state = with_pm [0x01, 0x04] (dm_set (dm_set m328p_reset 1 0xFF) 0x5F 0x03)"

text \<open>FMUL R16,R17 (\<open>0x0309\<close>) with R16 = R17 = \<open>0xFF\<close>.\<close>

definition fmul_state :: MSIM_AVR where
  "fmul_state = with_pm [0x09, 0x03] (dm_set (dm_set m328p_reset 16 0xFF) 17 0xFF)"

text \<open>
  CS0 = \<open>0b111\<close> (T0 rising) and the T0 pin, bit 4 of PORTD, held high; TCNT0 = 0.
\<close>

definition ext_clock_state :: MSIM_AVR where
  "ext_clock_state = dm_set (dm_set m328p_reset 0x45 0x07) 0x2B 0x10"





section \<open>Evaluation rules\<close>

lemma SKIP_CYCLES_cong:
  "mcu = mcu' \<Longrightarrow> c = c' \<Longrightarrow> n = n' \<Longrightarrow> SKIP_CYCLES mcu c n k = SKIP_CYCLES mcu' c' n' k"
  by simp

lemmas flag_defs = MSIM_AVR_UpdateSREGFlag_def MSIM_AVR_ReadSREGFlag_def update_sign_def
  dm_set_def sreg_set_def

lemmas stack_defs = MSIM_AVR_StackPush_def MSIM_AVR_StackPop_def stack_pointer_def
  set_stack_pointer_def push_pc_def

lemmas decode_defs = decode_inst_def decode_0000_def decode_1000_def decode_2000_def
  decode_8000_def decode_9000_def decode_9000_inst_def decode_9000_fe0f_def
  decode_9000_ff00_def decode_A000_def decode_F000_def

lemmas step_defs = MSIM_AVR_Step_def fetch_word_def with_pm_def m328p_reset_def

lemma steps_2: "steps 2 m = snd (MSIM_AVR_Step (snd (MSIM_AVR_Step m)))"
  by (simp add: numeral_2_eq_2)

lemma steps_1: "steps 1 m = snd (MSIM_AVR_Step m)"
  by simp

section \<open>Claims settled by running the code on one input\<close>

subsection \<open>C1: a skip over a 32-bit instruction\<close>

lemma sbrs_call_run:
  "let mcu = steps 2 sbrs_call_state in
   MSIM_AVR_Is32 (ucast (fetch_word (pm sbrs_call_state) 2)) \<and>
   MSIM_AVR_ReadSREGFlag sbrs_call_state AVR_SREG_ZERO = 0 \<and>
   dm sbrs_call_state 16 AND 1 = 1 \<and>
   in_mcinst (steps 1 sbrs_call_state) = 1 \<and>
   in_mcinst mcu = 0 \<and>
   pc mcu = 4"
  by (simp add: steps_2 sbrs_call_state_def step_defs decode_defs exec_sbrs_def SKIP_CYCLES_def
      MSIM_AVR_Is32_def flag_defs Let_def cong: SKIP_CYCLES_cong let_weak_cong)

text \<open>
  Claim C1.  The claim: when the skip condition of SBRS, SBRC or CPSE holds, the number
  of bytes skipped is decided by \<open>MSIM_AVR_Is32\<close> on the full 16-bit word at PC+2..PC+3,
  so the completing cycle advances PC by 6 over a 32-bit instruction.  On the code: the
  word at PC+2 is the CALL opcode and satisfies the predicate, yet after the two cycles
  of the SBRS the PC is 4, because \<open>exec_sbrs\<close> hands only the byte \<open>pm[pc+2]\<close> to the
  predicate.
\<close>

theorem sbrs_over_call_advances_4:
  "MSIM_AVR_Is32 (ucast (fetch_word (pm sbrs_call_state) 2)) \<and>
   MSIM_AVR_ReadSREGFlag sbrs_call_state AVR_SREG_ZERO = 0 \<and>
   dm sbrs_call_state 16 AND 1 = 1 \<and>
   in_mcinst (steps 1 sbrs_call_state) = 1 \<and>
   in_mcinst (steps 2 sbrs_call_state) = 0 \<and>
   pc (steps 2 sbrs_call_state) = 4"
  using sbrs_call_run by (simp only: Let_def)

subsection \<open>C2: ADIW at the 16-bit boundary\<close>

lemma adiw_run:
  "let mcu = steps 2 adiw_state in
   dm mcu 24 = 0 \<and> dm mcu 25 = 0 \<and>
   MSIM_AVR_ReadSREGFlag mcu AVR_SREG_CARRY = 1 \<and>
   MSIM_AVR_ReadSREGFlag mcu AVR_SREG_ZERO = 0 \<and>
   pc mcu = 2"
  by (simp add: steps_2 adiw_state_def step_defs decode_defs exec_adiw_def SKIP_CYCLES_def
      adiw_regs_def flag_defs Let_def cong: SKIP_CYCLES_cong let_weak_cong)

text \<open>
  Claim C2.  The claim: ADIW R24,1 on \<open>0xFFFF\<close> stores \<open>0x0000\<close> and sets C = 1 and
  Z = 1, and in general Z is set iff the stored 16-bit result is zero.  On the code:
  the two cycles of the instruction store \<open>0x0000\<close> and set C, but Z is 0, because the
  zero test reads the 32-bit sum \<open>0x10000\<close>.
\<close>

theorem adiw_ffff_leaves_Z_clear:
  "dm (steps 2 adiw_state) 24 = 0 \<and> dm (steps 2 adiw_state) 25 = 0 \<and>
   MSIM_AVR_ReadSREGFlag (steps 2 adiw_state) AVR_SREG_CARRY = 1 \<and>
   MSIM_AVR_ReadSREGFlag (steps 2 adiw_state) AVR_SREG_ZERO = 0 \<and>
   pc (steps 2 adiw_state) = 2"
  using adiw_run by (simp only: Let_def)

subsection \<open>C5: the Z flag of CPC\<close>

lemma cpc_fetch: "MSIM_AVR_Step cpc_state = (0, exec_cpc cpc_state 0x0401)"
  by (simp add: cpc_state_def step_defs decode_defs dm_set_def Let_def cong: let_weak_cong)

lemma cpc_run:
  "let mcu = exec_cpc cpc_state 0x0401 in
   uchar (int_of (dm cpc_state 0) - int_of (dm cpc_state 1) -
          int_of (MSIM_AVR_ReadSREGFlag cpc_state AVR_SREG_CARRY)) = 0 \<and>
   MSIM_AVR_ReadSREGFlag cpc_state AVR_SREG_ZERO = 1 \<and>
   MSIM_AVR_ReadSREGFlag mcu AVR_SREG_ZERO = 0"
  by (simp add: cpc_state_def with_pm_def m328p_reset_def exec_cpc_def sub_buf_def sub_ovf_def
      flag_defs Let_def cong: let_weak_cong)

text \<open>
  Claim C5.  The claim: CPC and SBC never set Z; a nonzero 8-bit result clears it and a
  zero 8-bit result keeps the previous value.  On the code: here the 8-bit result of
  0 - 255 - 1 is zero and Z was 1, yet CPC leaves Z = 0, because \<open>exec_cpc\<close> tests the
  \<open>int\<close> difference -256 and not the byte (\<open>exec_sbc\<close> tests the byte).
\<close>

theorem cpc_zero_result_clears_Z:
  "uchar (int_of (dm cpc_state 0) - int_of (dm cpc_state 1) -
          int_of (MSIM_AVR_ReadSREGFlag cpc_state AVR_SREG_CARRY)) = 0 \<and>
   MSIM_AVR_ReadSREGFlag cpc_state AVR_SREG_ZERO = 1 \<and>
   MSIM_AVR_ReadSREGFlag (steps 1 cpc_state) AVR_SREG_ZERO = 0"
  using cpc_run by (simp only: Let_def steps_1 cpc_fetch snd_conv)

subsection \<open>C7: the product registers of FMUL\<close>

lemma fmul_run:
  "let mcu = steps 2 fmul_state in
   push_bit 1 (int_of (dm fmul_state 16) * int_of (dm fmul_state 17)) AND 0xFFFF = 0xFC02 \<and>
   dm mcu 0 = 0x02 \<and> dm mcu 1 = 0x0C \<and>
   in_mcinst mcu = 0"
  by (simp add: steps_2 fmul_state_def step_defs decode_defs exec_fmul_def SKIP_CYCLES_def
      flag_defs Let_def cong: SKIP_CYCLES_cong let_weak_cong)

text \<open>
  Claim C7.  The claim: on the completing cycle R1:R0 receives the full 16-bit product,
  for the FMUL variants shifted left by one, R0 the low and R1 the high byte.  On the
  code: \<open>0xFF * 0xFF = 0xFE01\<close>, shifted left by one and cut to 16 bits \<open>0xFC02\<close>, but
  R1 receives \<open>0x0C\<close> instead of \<open>0xFC\<close>: \<open>exec_fmul\<close> masks both bytes with \<open>0x0F\<close>.
\<close>

theorem fmul_stores_low_nibbles:
  "push_bit 1 (int_of (dm fmul_state 16) * int_of (dm fmul_state 17)) AND 0xFFFF = 0xFC02 \<and>
   dm (steps 2 fmul_state) 0 = 0x02 \<and> dm (steps 2 fmul_state) 1 = 0x0C \<and>
   in_mcinst (steps 2 fmul_state) = 0"
  using fmul_run by (simp only: Let_def)

subsection \<open>C6: Timer0 on the external clock\<close>

lemmas timer_defs = tick_timer0_def tick_internal_def timer0_normal_def count_up_def
  IS_RISE_def IS_FALL_def m328p_io_def statics_init_def

lemma ext_clock_run:
  "let t1 = tick_timer0 m328p_io (statics_init, ext_clock_state);
       t2 = tick_timer0 m328p_io t1 in
   dm (snd t1) (PORTD m328p_io) = dm ext_clock_state (PORTD m328p_io) \<and>
   dm (snd t1) (TCNT0 m328p_io) = 1 \<and>
   dm (snd t2) (TCNT0 m328p_io) = 2 \<and>
   init_portd (fst t2) = 0"
  by (simp add: ext_clock_state_def timer_defs m328p_reset_def dm_set_def Let_def
      cong: let_weak_cong prod.case_cong_weak)

text \<open>
  Claim C6.  The claim: on the external clock TCNT0 changes only on a tick where the pin
  sample differs from the previous sample in the configured direction, never while the
  level is held.  On the code: two ticks with the pin held high and unchanged count
  twice, and the samples \<open>init_portd\<close>, \<open>init_pind\<close> are still 0 afterwards: the
  file never stores the current pin value into them.
\<close>

theorem ext_clock_counts_held_level:
  "dm (snd (tick_timer0 m328p_io (statics_init, ext_clock_state))) (PORTD m328p_io) =
     dm ext_clock_state (PORTD m328p_io) \<and>
   dm (snd (tick_timer0 m328p_io (statics_init, ext_clock_state))) (TCNT0 m328p_io) = 1 \<and>
   dm (snd (tick_timer0 m328p_io (tick_timer0 m328p_io (statics_init, ext_clock_state))))
      (TCNT0 m328p_io) = 2 \<and>
   init_portd (fst (tick_timer0 m328p_io (tick_timer0 m328p_io (statics_init, ext_clock_state)))) = 0"
  using ext_clock_run by (simp only: Let_def)

text \<open>
  The run above on its input: the pin is high in \<open>ext_clock_state\<close> and the second tick,
  on the same held level, takes TCNT0 from 1 to 2.
\<close>

theorem ext_clock_counts_held_level_witness:
  "dm (snd (tick_timer0 m328p_io (tick_timer0 m328p_io (statics_init, ext_clock_state))))
      (TCNT0 m328p_io) = 2"
  using ext_clock_counts_held_level by (elim conjE)

subsection \<open>C8: two instances on one timer\<close>




















section \<open>Facts about the decoder\<close>

text \<open>
  A word of which some bits are known, \<open>x AND m = v\<close>, decides the other mask tests
  of the decoder whenever the masks overlap in a bit that differs, or are included.
\<close>

lemma mask_conflict: "x AND m = v \<Longrightarrow> v AND m' \<noteq> v' AND m \<Longrightarrow> x AND m' \<noteq> v'"
  for x :: "'a::len word"
proof
  assume a: "x AND m = v" and b: "v AND m' \<noteq> v' AND m" and c: "x AND m' = v'"
  have "v AND m' = (x AND m) AND m'" using a by simp
  also have "\<dots> = (x AND m') AND m" by (simp add: ac_simps)
  also have "\<dots> = v' AND m" using c by simp
  finally show False using b by simp
qed

lemma mask_conflict_eq: "x AND m = v \<Longrightarrow> c AND m \<noteq> v \<Longrightarrow> x \<noteq> c"
  for x :: "'a::len word"
  by auto

lemma mask_sub: "x AND m = v \<Longrightarrow> m' AND m = m' \<Longrightarrow> (x AND m' = v') = (v AND m' = v')"
  for x :: "'a::len word"
proof -
  assume a: "x AND m = v" and b: "m' AND m = m'"
  have "x AND m' = x AND (m' AND m)" using b by simp
  also have "\<dots> = (x AND m) AND m'" by (simp add: ac_simps)
  finally show ?thesis using a by simp
qed

lemma rc_if:
  "rejects_clean mcu a \<Longrightarrow> rejects_clean mcu b \<Longrightarrow> rejects_clean mcu (if c then a else b)"
  by simp

lemma rc_ok: "rejects_clean mcu (0, x)"
  by (simp add: rejects_clean_def)

lemma rc_fail: "rejects_clean mcu (-1, mcu)"
  by (simp add: rejects_clean_def)

lemma decode_inst_rejects: "rejects_clean mcu (decode_inst mcu inst)"
  unfolding decode_defs Let_def by (intro rc_if rc_ok rc_fail)

lemma same_if:
  "same_rc a b \<Longrightarrow> same_rc a' b' \<Longrightarrow> same_rc (if c then a else a') (if c then b else b')"
  by simp

lemma same_pair: "same_rc (x, a) (x, b)"
  by (simp add: same_rc_def)

text \<open>Whether a word is known depends on the word alone, not on the state.\<close>

lemma decode_rc_indep: "same_rc (decode_inst m inst) (decode_inst m' inst)"
  unfolding decode_defs Let_def by (intro same_if same_pair)

lemma unat_uchar: "unat (y :: u32) < 256 \<Longrightarrow> unat (ucast y :: u8) = unat y"
  by (simp add: unsigned_ucast_eq take_bit_nat_eq_self)

lemma unat_int_of: "unat (ucast (b :: u8) :: u32) = unat b"
  by (simp add: unsigned_ucast_eq take_bit_nat_eq_self unsigned_less[of b, simplified]
      less_trans[OF unsigned_less[of b, simplified]])

text \<open>The register numbers \<open>exec_movw\<close> computes from a four-bit field.\<close>

lemma nibble_reg:
  fixes x :: u32
  assumes "unat (x AND 0x0F) = n"
  shows "unat (uchar (push_bit 1 (x AND 0x0F))) = 2 * n"
    and "unat (int_of (uchar (push_bit 1 (x AND 0x0F))) + 1) = 2 * n + 1"
    and "n < 16"
proof -
  define y where "y = x AND 0x0F"
  have "y \<le> 0x0F" unfolding y_def by (rule word_and_le1)
  then have n: "n < 16" using assms by (simp add: word_le_nat_alt y_def)
  then show "n < 16" .
  have p: "unat (push_bit 1 y) = 2 * n"
    using assms n by (simp add: push_bit_eq_mult unat_word_ariths y_def)
  have "unat (push_bit 1 y) < 256" using p n by linarith
  then have "unat (uchar (push_bit 1 y)) = unat (push_bit 1 y)" by (rule unat_uchar)
  then have u: "unat (uchar (push_bit 1 y)) = 2 * n" using p by (simp only:)
  then show "unat (uchar (push_bit 1 (x AND 0x0F))) = 2 * n" by (simp only: y_def)
  have "unat (int_of (uchar (push_bit 1 y))) = 2 * n" using u by (simp only: unat_int_of)
  then have "unat (int_of (uchar (push_bit 1 y)) + 1) = 2 * n + 1"
    using n by (simp add: unat_word_ariths)
  then show "unat (int_of (uchar (push_bit 1 (x AND 0x0F))) + 1) = 2 * n + 1"
    by (simp only: y_def)
qed

lemma movw_decode:
  assumes h: "inst AND 0xFF00 = 0x0100"
  shows "decode_inst mcu inst = (0, exec_movw mcu inst)"
  by (simp add: decode_defs Let_def mask_conflict[OF h] mask_conflict_eq[OF h] mask_sub[OF h])

lemma exec_movw_nat:
  assumes d: "unat (drop_bit 4 inst AND 0x0F) = d" and r: "unat (inst AND 0x0F) = r"
  shows "exec_movw mcu inst =
     mcu\<lparr>dm := (dm mcu)(2 * d + 1 := dm mcu (2 * r + 1),
                          2 * d := ((dm mcu)(2 * d + 1 := dm mcu (2 * r + 1))) (2 * r)),
         pc := pc mcu + 2\<rparr>"
  unfolding exec_movw_def Let_def dm_set_def
  apply (simp only: nibble_reg(1,2)[OF d] nibble_reg(1,2)[OF r])
  apply simp
  done

section \<open>Claims about the decoder\<close>

text \<open>
  Claim C4.  When the decoder executes EICALL (\<open>0x9519\<close>) or EIJMP (\<open>0x9419\<close>) on a
  device whose EIND pointer is null, or ELPM in any of its three forms (\<open>0x95D8\<close>,
  \<open>1001 000d dddd 0110\<close>, \<open>1001 000d dddd 0111\<close>) on a device whose RAMPZ pointer is
  null, the call returns 0 and the resulting state is the given state with the run state
  set to \<open>AVR_MSIM_TESTFAIL\<close>: PC, data memory (hence SREG and the stack), program memory
  and the cycle bookkeeping are unchanged.
\<close>

theorem missing_extension_register_fails:
  "(eind mcu = None \<longrightarrow>
      decode_inst mcu 0x9519 = (0, mcu\<lparr>state := AVR_MSIM_TESTFAIL\<rparr>) \<and>
      decode_inst mcu 0x9419 = (0, mcu\<lparr>state := AVR_MSIM_TESTFAIL\<rparr>)) \<and>
   (rampz mcu = None \<and>
    (inst = 0x95D8 \<or> inst AND 0xFE0F = 0x9006 \<or> inst AND 0xFE0F = 0x9007) \<longrightarrow>
      decode_inst mcu inst = (0, mcu\<lparr>state := AVR_MSIM_TESTFAIL\<rparr>))"
proof (intro conjI impI)
  assume "eind mcu = None"
  then show "decode_inst mcu 0x9519 = (0, mcu\<lparr>state := AVR_MSIM_TESTFAIL\<rparr>)"
    by (simp add: decode_defs exec_eicall_def Let_def)
next
  assume "eind mcu = None"
  then show "decode_inst mcu 0x9419 = (0, mcu\<lparr>state := AVR_MSIM_TESTFAIL\<rparr>)"
    by (simp add: decode_defs exec_eijmp_def Let_def)
next
  assume a: "rampz mcu = None \<and>
    (inst = 0x95D8 \<or> inst AND 0xFE0F = 0x9006 \<or> inst AND 0xFE0F = 0x9007)"
  then consider "inst = 0x95D8" | "inst AND 0xFE0F = 0x9006" | "inst AND 0xFE0F = 0x9007"
    by blast
  then have "decode_inst mcu inst = (0, exec_elpm mcu inst)"
  proof cases
    case 1
    then show ?thesis by (simp add: decode_defs Let_def)
  next
    case 2
    show ?thesis
      by (simp add: decode_defs Let_def mask_conflict[OF 2] mask_conflict_eq[OF 2]
          mask_sub[OF 2] 2)
  next
    case 3
    show ?thesis
      by (simp add: decode_defs Let_def mask_conflict[OF 3] mask_conflict_eq[OF 3]
          mask_sub[OF 3] 3)
  qed
  with a show "decode_inst mcu inst = (0, mcu\<lparr>state := AVR_MSIM_TESTFAIL\<rparr>)"
    by (simp add: exec_elpm_def)
qed

theorem missing_extension_register_fails_witness:
  "eind m328p_reset = None \<and> rampz m328p_reset = None \<and>
   (0x9016 :: u32) AND 0xFE0F = 0x9006 \<and>
   decode_inst m328p_reset 0x9519 = (0, m328p_reset\<lparr>state := AVR_MSIM_TESTFAIL\<rparr>) \<and>
   decode_inst m328p_reset 0x9419 = (0, m328p_reset\<lparr>state := AVR_MSIM_TESTFAIL\<rparr>) \<and>
   decode_inst m328p_reset 0x9016 = (0, m328p_reset\<lparr>state := AVR_MSIM_TESTFAIL\<rparr>)"
proof -
  have e: "eind m328p_reset = None" by (simp add: m328p_reset_def)
  have r: "rampz m328p_reset = None" by (simp add: m328p_reset_def)
  have w: "(0x9016 :: u32) AND 0xFE0F = 0x9006" by simp
  show ?thesis
    using e r w missing_extension_register_fails[of m328p_reset "0x9016"] by blast
qed

text \<open>
  Claim C9.  Let \<open>inst1\<close> be MOVW Rd,Rr and \<open>inst2\<close> be MOVW Rr,Rd, with \<open>d\<close> and \<open>r\<close>
  the four-bit pair numbers (the pairs are the registers \<open>2d+1:2d\<close> and \<open>2r+1:2r\<close>), on a
  device whose SREG lies above the register file.  Decoding \<open>inst1\<close> and then \<open>inst2\<close>
  succeeds both times; the source pair ends with its original value and the destination
  pair holds the same value; the second MOVW changes no byte of the data memory; the
  SREG byte is untouched; and each MOVW advances PC by 2.
\<close>

theorem movw_round_trip:
  assumes e1: "inst1 AND 0xFF00 = 0x0100"
      and d1: "unat (drop_bit 4 inst1 AND 0x0F) = d" and r1: "unat (inst1 AND 0x0F) = r"
      and e2: "inst2 AND 0xFF00 = 0x0100"
      and d2: "unat (drop_bit 4 inst2 AND 0x0F) = r" and r2: "unat (inst2 AND 0x0F) = d"
      and s: "32 \<le> sreg mcu"
  shows "fst (decode_inst mcu inst1) = 0 \<and>
         fst (decode_inst (snd (decode_inst mcu inst1)) inst2) = 0 \<and>
         dm (snd (decode_inst (snd (decode_inst mcu inst1)) inst2)) (2 * r) = dm mcu (2 * r) \<and>
         dm (snd (decode_inst (snd (decode_inst mcu inst1)) inst2)) (2 * r + 1) = dm mcu (2 * r + 1) \<and>
         dm (snd (decode_inst (snd (decode_inst mcu inst1)) inst2)) (2 * d) = dm mcu (2 * r) \<and>
         dm (snd (decode_inst (snd (decode_inst mcu inst1)) inst2)) (2 * d + 1) = dm mcu (2 * r + 1) \<and>
         dm (snd (decode_inst (snd (decode_inst mcu inst1)) inst2)) = dm (snd (decode_inst mcu inst1)) \<and>
         dm (snd (decode_inst mcu inst1)) (sreg mcu) = dm mcu (sreg mcu) \<and>
         sreg (snd (decode_inst (snd (decode_inst mcu inst1)) inst2)) = sreg mcu \<and>
         pc (snd (decode_inst mcu inst1)) = pc mcu + 2 \<and>
         pc (snd (decode_inst (snd (decode_inst mcu inst1)) inst2)) = pc mcu + 4"
proof -
  have dl: "d < 16" using nibble_reg(3)[OF d1] .
  have rl: "r < 16" using nibble_reg(3)[OF r1] .
  have m1: "decode_inst mcu inst1 = (0, exec_movw mcu inst1)" by (rule movw_decode[OF e1])
  have m2: "\<And>m. decode_inst m inst2 = (0, exec_movw m inst2)" by (rule movw_decode[OF e2])
  show ?thesis
    unfolding m1 m2 fst_conv snd_conv exec_movw_nat[OF d1 r1] exec_movw_nat[OF d2 r2]
    using dl rl s by (auto simp add: fun_eq_iff)
qed

text \<open>MOVW R25:R24,R17:R16 (\<open>0x01C8\<close>) and back (\<open>0x018C\<close>) with R17:R16 = \<open>0x1234\<close>.\<close>

theorem movw_round_trip_witness:
  "(0x01C8 :: u32) AND 0xFF00 = 0x0100 \<and> unat (drop_bit 4 (0x01C8 :: u32) AND 0x0F) = 12 \<and>
   unat ((0x01C8 :: u32) AND 0x0F) = 8 \<and>
   (0x018C :: u32) AND 0xFF00 = 0x0100 \<and> unat (drop_bit 4 (0x018C :: u32) AND 0x0F) = 8 \<and>
   unat ((0x018C :: u32) AND 0x0F) = 12 \<and> 32 \<le> sreg movw_state \<and>
   dm movw_state 16 = 0x34 \<and> dm movw_state 17 = 0x12 \<and>
   dm (snd (decode_inst (snd (decode_inst movw_state 0x01C8)) 0x018C)) (2 * 8) =
     dm movw_state (2 * 8) \<and>
   dm (snd (decode_inst (snd (decode_inst movw_state 0x01C8)) 0x018C)) (2 * 12 + 1) =
     dm movw_state (2 * 8 + 1) \<and>
   pc (snd (decode_inst (snd (decode_inst movw_state 0x01C8)) 0x018C)) = pc movw_state + 4"
proof -
  have a: "(0x01C8 :: u32) AND 0xFF00 = 0x0100" by simp
  have b: "unat (drop_bit 4 (0x01C8 :: u32) AND 0x0F) = 12" by simp
  have c: "unat ((0x01C8 :: u32) AND 0x0F) = 8" by simp
  have d: "(0x018C :: u32) AND 0xFF00 = 0x0100" by simp
  have e: "unat (drop_bit 4 (0x018C :: u32) AND 0x0F) = 8" by simp
  have f: "unat ((0x018C :: u32) AND 0x0F) = 12" by simp
  have g: "32 \<le> sreg movw_state" by (simp add: movw_state_def m328p_reset_def dm_set_def)
  have h: "dm movw_state 16 = 0x34 \<and> dm movw_state 17 = 0x12"
    by (simp add: movw_state_def m328p_reset_def dm_set_def)
  show ?thesis
    using a b c d e f g h movw_round_trip[OF a b c d e f g] by blast
qed

text \<open>
  Claim C10.  If the decoder rejects the 16-bit word that \<open>MSIM_AVR_Step\<close> fetches (the
  rejection depends on the word only, so it may be observed in any state \<open>m0\<close>), then
  \<open>MSIM_AVR_Step\<close> returns -1 and the state is the given one except that the one-shot
  flag \<open>read_from_mpm\<close> is 0: PC, data memory, program memory, \<open>in_mcinst\<close> and \<open>ic_left\<close>
  keep their values.
\<close>

theorem unknown_instruction_keeps_state:
  assumes "fst (decode_inst m0 (fetched mcu)) \<noteq> 0"
  shows "MSIM_AVR_Step mcu = (-1, mcu\<lparr>read_from_mpm := 0\<rparr>)"
proof -
  let ?m = "mcu\<lparr>read_from_mpm := 0\<rparr>"
  have "fst (decode_inst ?m (fetched mcu)) = fst (decode_inst m0 (fetched mcu))"
    using decode_rc_indep[of ?m "fetched mcu" m0] by (simp add: same_rc_def)
  then have "fst (decode_inst ?m (fetched mcu)) \<noteq> 0" using assms by simp
  then have d: "decode_inst ?m (fetched mcu) = (-1, ?m)"
    using decode_inst_rejects[of ?m "fetched mcu"] by (simp add: rejects_clean_def)
  show ?thesis
  proof (cases "read_from_mpm mcu = 0")
    case True
    then have "?m = mcu" by simp
    with d True show ?thesis by (simp add: MSIM_AVR_Step_def fetched_def)
  next
    case False
    with d show ?thesis by (simp add: MSIM_AVR_Step_def fetched_def)
  qed
qed

text \<open>The word \<open>0x9003\<close> at address 0 matches no pattern.\<close>

theorem unknown_instruction_keeps_state_witness:
  "fst (decode_inst m328p_reset (fetched unknown_state)) \<noteq> 0 \<and>
   MSIM_AVR_Step unknown_state = (-1, unknown_state\<lparr>read_from_mpm := 0\<rparr>)"
proof -
  have w: "fetched unknown_state = 0x9003"
    by (simp add: fetched_def unknown_state_def step_defs dm_set_def)
  have h: "fst (decode_inst m328p_reset (fetched unknown_state)) \<noteq> 0"
    unfolding w by (simp add: decode_defs Let_def)
  show ?thesis
    using h unknown_instruction_keeps_state[OF h] by blast
qed

end
